theory Spec2Isabelle
  imports Main
begin

section \<open>Conversation state and turn gate\<close>

text \<open>
  The pages import \<open>initConversationState\<close>, \<open>canGenerateAgentResponse\<close>,
  \<open>updateStateOnUserMessage\<close>, \<open>advanceAfterAgentResponse\<close>,
  \<open>selectAgentToSpeak\<close>, \<open>getResponseDelay\<close>, \<open>generateAgentResponse\<close> and
  \<open>calculateScore\<close> from \<open>@/lib/agent-responses\<close>, and the types \<open>Message\<close>,
  \<open>Agent\<close> and \<open>DifficultyLevel\<close> from \<open>@/types\<close>. Neither module is among the
  sources. The first five functions are defined here from the specification (sections
  3, 4.1, 4.2 and 4.3); \<open>generateAgentResponse\<close> and \<open>calculateScore\<close> are
  parameters of the functions that call them.
\<close>

text \<open>Modelled from the spec: the conversation state of the missing module (section 3:
  turnIndex, an integer that is at least 0, and awaitingAgentTurn).\<close>

record ConversationState =
  turnIndex :: nat
  awaitingAgentTurn :: bool

text \<open>Modelled from the spec: the types \<open>Agent\<close>, \<open>Message\<close> and
  \<open>DifficultyLevel\<close> of the missing \<open>@/types\<close> (section 3), with the fields the pages
  read and write (\<open>id\<close>, \<open>name\<close>, \<open>voiceId\<close>, \<open>emotionPrefix\<close>; \<open>id\<close>,
  \<open>agentId\<close>, \<open>agentName\<close>, \<open>content\<close>, \<open>timestamp\<close>, \<open>isUser\<close>). A timestamp
  is the clock value in milliseconds; an absent \<open>emotionPrefix\<close> is the empty string.\<close>

record Agent =
  agent_id :: string
  agent_name :: string
  voiceId :: string
  emotionPrefix :: string

record Message =
  msg_id :: string
  agentId :: string
  agentName :: string
  content :: string
  timestamp :: nat
  isUser :: bool

datatype DifficultyLevel = Easy | Medium | Hard

text \<open>The selection strategies; the pages pass "active-host" only.\<close>

datatype Strategy = ActiveHost

text \<open>Modelled from the spec: \<open>initConversationState\<close> of the missing module
  (4.1: state with turnIndex 0 and awaitingAgentTurn false).\<close>

definition initConversationState :: ConversationState where
  "initConversationState = \<lparr>turnIndex = 0, awaitingAgentTurn = False\<rparr>"

text \<open>Modelled from the spec: \<open>updateStateOnUserMessage\<close> of the missing module
  (4.1: new state with awaitingAgentTurn true, turnIndex unchanged).\<close>

definition updateStateOnUserMessage :: "ConversationState \<Rightarrow> ConversationState" where
  "updateStateOnUserMessage s = s\<lparr>awaitingAgentTurn := True\<rparr>"

text \<open>Modelled from the spec: \<open>advanceAfterAgentResponse\<close> of the missing module
  (4.1: new state with turnIndex + 1 and awaitingAgentTurn false; the agent id does not
  enter the result).\<close>

definition advanceAfterAgentResponse :: "ConversationState \<Rightarrow> string \<Rightarrow> ConversationState" where
  "advanceAfterAgentResponse s a = s\<lparr>turnIndex := turnIndex s + 1, awaitingAgentTurn := False\<rparr>"

text \<open>Modelled from the spec: \<open>canGenerateAgentResponse\<close> of the missing module
  (4.2: true iff awaitingAgentTurn is true).\<close>

definition canGenerateAgentResponse :: "ConversationState \<Rightarrow> bool" where
  "canGenerateAgentResponse s = awaitingAgentTurn s"

subsection \<open>Agent selector\<close>

text \<open>
  Modelled from the spec: the notions that section 4.3 uses for \<open>selectAgentToSpeak\<close>.
  The history is in chronological order (the page appends new messages at the end).
  \<open>lastNonUserSpeaker\<close> is the agent id of the most recent message that is not the
  user's; \<open>lastSpokeAt h a\<close> is the position (counted from 1) of the last message of
  agent \<open>a\<close> in \<open>h\<close>, and 0 when \<open>a\<close> has not spoken, so that a smaller value means
  "spoke less recently".
\<close>

definition lastNonUserSpeaker :: "Message list \<Rightarrow> string option" where
  "lastNonUserSpeaker h = map_option agentId (find (\<lambda>m. \<not> isUser m) (rev h))"

definition lastSpokeAt :: "Message list \<Rightarrow> string \<Rightarrow> nat" where
  "lastSpokeAt h a = length (dropWhile (\<lambda>m. isUser m \<or> agentId m \<noteq> a) (rev h))"

text \<open>Modelled from the spec: the tie-break of section 4.3, the first agent of the list
  among those that spoke least recently.\<close>

fun leastRecent :: "Message list \<Rightarrow> Agent list \<Rightarrow> Agent option" where
  "leastRecent h [] = None"
| "leastRecent h (a # as) =
     (case leastRecent h as of
        None \<Rightarrow> Some a
      | Some b \<Rightarrow>
          if lastSpokeAt h (agent_id a) \<le> lastSpokeAt h (agent_id b) then Some a else Some b)"

text \<open>Modelled from the spec: \<open>selectAgentToSpeak\<close> of the missing module (4.3: null
  when the agent list is empty; for "active-host", with more than one agent, avoid the
  most recent non-user speaker, prefer the agent who spoke least recently, and on a full
  tie take the earlier list position). The spec does not say what happens when every
  agent carries the id of the last speaker; the model then chooses among all agents.\<close>

definition selectAgentToSpeak ::
  "Message list \<Rightarrow> 'sc \<Rightarrow> Agent list \<Rightarrow> Strategy \<Rightarrow> Agent option" where
  "selectAgentToSpeak h scenario agents strategy =
     (if agents = [] then None
      else case strategy of
        ActiveHost \<Rightarrow>
          (let others = (if 1 < length agents
                         then filter (\<lambda>a. lastNonUserSpeaker h \<noteq> Some (agent_id a)) agents
                         else agents)
           in if others = [] then leastRecent h agents else leastRecent h others))"

section \<open>The practice page\<close>

text \<open>
  The practice page is a React function component. It exists in two versions:
  \<open>unnamed/part_001\<close>, with the Gemini interviewer and speech recognition, and
  \<open>src/app/practice/[scenarioId]/page.tsx\<close>, with the presentation scenario; their
  \<open>scheduleAgentResponse\<close> are the same text. Each render runs the component function anew: the values returned by
  \<open>useState\<close> are constants of that render, and every function defined in the
  component body (\<open>scheduleAgentResponse\<close>, \<open>handleSendMessage\<close>, the callback given
  to \<open>setTimeout\<close>, ...) closes over the constants of the render that created it.
  Objects returned by \<open>useRef\<close> are shared by all renders.

  The model therefore separates
  \<^item> \<open>PracticeState\<close>: the values of the state hooks. A value of this type is used
    both for the live state and for the constants a closure captured (its render);
  \<^item> \<open>PracticePage\<close>: the live state, the refs, the browser's pending timeouts and the
    local storage entry.
  A handler takes the render \<open>r\<close> it was created in and the live page \<open>p\<close>. Reads of
  a state variable go to \<open>r\<close>; reads of a ref, and the functional updates
  \<open>setX(prev => ...)\<close>, go to \<open>p\<close>. A handler attached to the page by the latest
  render runs with \<open>r = st p\<close>.

  Not modelled: the text-to-speech queue, the media streams, the speech recognition
  object itself and console output. The delay of a timeout only decides when the
  browser runs the callback; the model lets a pending callback run at any moment.
\<close>

text \<open>
  The scenario descriptor returned by \<open>getScenarioById\<close> (\<open>@/lib/scenarios\<close>, not
  among the sources), with the fields the scheduler and the handlers read:
  \<open>id\<close>, \<open>type\<close>, \<open>basePrompt\<close> and \<open>presentational\<close> (passed on unread).
\<close>

record Scenario =
  scenario_id :: string
  scenario_type :: string
  basePrompt :: string
  presentational :: "string option"

record AgentPromptContext =
  scenarioBasePrompt :: string
  userExtras :: string
  talkingPoints :: "(string \<times> nat) list"
  ctx_presentational :: "string option"

record PracticeState =
  scenario :: "Scenario option"
  agents :: "Agent list"
  messages :: "Message list"
  convState :: ConversationState
  userInput :: string
  timeElapsed :: nat
  isActive :: bool
  difficulty :: DifficultyLevel
  sessionEnded :: bool
  finalScore :: nat
  userExtrasForContext :: string
  talkingPointsForContext :: "(string \<times> nat) list"
  useGeminiInterviewer :: bool
  geminiConversationHistory :: "(string \<times> string) list"
  isGeminiProcessing :: bool
  currentAgentIndex :: nat
  hardcodedResponseIndex :: nat
  interimTranscript :: string
  fullTranscript :: string
  userSpeechBuffer :: string

text \<open>
  The callback that \<open>scheduleAgentResponse\<close> hands to \<open>setTimeout\<close>, as a closure:
  the render it was created in, the scenario (known to be present there) and the
  selected agent.
\<close>

datatype AgentResponseTimer = AgentResponseTimer PracticeState Scenario Agent

text \<open>The callback of \<open>generateHardcodedResponse\<close> (page.tsx): agent and response.\<close>

datatype HardcodedTimer = HardcodedTimer Agent string

record SessionSummary =
  sum_scenarioId :: "string option"
  sum_date :: string
  sum_score :: nat
  sum_duration :: nat
  sum_difficulty :: DifficultyLevel
  sum_transcript :: "string option"

text \<open>
  \<open>timers\<close> holds the pending timeouts created by \<open>scheduleAgentResponse\<close>, by id;
  \<open>hardcodedTimers\<close> those created by \<open>generateHardcodedResponse\<close>. Ids come from one
  counter, as in the browser. \<open>practiceSessions\<close> is the local-storage entry
  "practice-sessions".
\<close>

record PracticePage =
  st :: PracticeState
  scheduledTurnRef :: "nat option"
  agentResponseTimers :: "nat list"
  lastTranscriptTimeRef :: nat
  qaTimerRef :: "nat option"
  timers :: "(nat \<times> AgentResponseTimer) list"
  hardcodedTimers :: "(nat \<times> HardcodedTimer) list"
  nextTimer :: nat
  practiceSessions :: "SessionSummary list"

type_synonym selector = "Message list \<Rightarrow> Scenario \<Rightarrow> Agent list \<Rightarrow> Strategy \<Rightarrow> Agent option"

type_synonym generator =
  "string \<Rightarrow> Agent \<Rightarrow> DifficultyLevel \<Rightarrow> string list \<Rightarrow> AgentPromptContext \<Rightarrow> string"

subsection \<open>Strings\<close>

text \<open>
  \<open>String.prototype.trim\<close> removes white space and line terminators at both ends.
  Of these, the code points below 256 are TAB, LF, VT, FF, CR, SPACE and NBSP; the
  others (U+FEFF, U+2028, U+2029 and category Zs) are outside the type \<open>char\<close>.
\<close>

definition isWhiteSpace :: "char \<Rightarrow> bool" where
  "isWhiteSpace c = (of_char c \<in> {9, 10, 11, 12, 13, 32, 160 :: nat})"

definition trim :: "string \<Rightarrow> string" where
  "trim s = rev (dropWhile isWhiteSpace (rev (dropWhile isWhiteSpace s)))"

text \<open>Decimal digits of a number, for the message ids built from \<open>Date.now()\<close>.\<close>

fun decimal :: "nat \<Rightarrow> string" where
  "decimal n = (if 10 \<le> n then decimal (n div 10) else []) @ [char_of (n mod 10 + 48)]"

declare decimal.simps [simp del]

subsection \<open>State setters\<close>

definition setMessages :: "(Message list \<Rightarrow> Message list) \<Rightarrow> PracticePage \<Rightarrow> PracticePage" where
  "setMessages f p = p\<lparr>st := (st p)\<lparr>messages := f (messages (st p))\<rparr>\<rparr>"

definition setConvState ::
  "(ConversationState \<Rightarrow> ConversationState) \<Rightarrow> PracticePage \<Rightarrow> PracticePage" where
  "setConvState f p = p\<lparr>st := (st p)\<lparr>convState := f (convState (st p))\<rparr>\<rparr>"

definition setUserInput :: "string \<Rightarrow> PracticePage \<Rightarrow> PracticePage" where
  "setUserInput v p = p\<lparr>st := (st p)\<lparr>userInput := v\<rparr>\<rparr>"

definition setInterimTranscript :: "string \<Rightarrow> PracticePage \<Rightarrow> PracticePage" where
  "setInterimTranscript v p = p\<lparr>st := (st p)\<lparr>interimTranscript := v\<rparr>\<rparr>"

definition setFullTranscript :: "(string \<Rightarrow> string) \<Rightarrow> PracticePage \<Rightarrow> PracticePage" where
  "setFullTranscript f p = p\<lparr>st := (st p)\<lparr>fullTranscript := f (fullTranscript (st p))\<rparr>\<rparr>"

definition setIsGeminiProcessing :: "bool \<Rightarrow> PracticePage \<Rightarrow> PracticePage" where
  "setIsGeminiProcessing v p = p\<lparr>st := (st p)\<lparr>isGeminiProcessing := v\<rparr>\<rparr>"

definition setGeminiConversationHistory ::
  "(string \<times> string) list \<Rightarrow> PracticePage \<Rightarrow> PracticePage" where
  "setGeminiConversationHistory v p = p\<lparr>st := (st p)\<lparr>geminiConversationHistory := v\<rparr>\<rparr>"

definition setCurrentAgentIndex :: "(nat \<Rightarrow> nat) \<Rightarrow> PracticePage \<Rightarrow> PracticePage" where
  "setCurrentAgentIndex f p = p\<lparr>st := (st p)\<lparr>currentAgentIndex := f (currentAgentIndex (st p))\<rparr>\<rparr>"

definition setHardcodedResponseIndex :: "(nat \<Rightarrow> nat) \<Rightarrow> PracticePage \<Rightarrow> PracticePage" where
  "setHardcodedResponseIndex f p =
     p\<lparr>st := (st p)\<lparr>hardcodedResponseIndex := f (hardcodedResponseIndex (st p))\<rparr>\<rparr>"

definition setIsActive :: "bool \<Rightarrow> PracticePage \<Rightarrow> PracticePage" where
  "setIsActive v p = p\<lparr>st := (st p)\<lparr>isActive := v\<rparr>\<rparr>"

definition setSessionEnded :: "bool \<Rightarrow> PracticePage \<Rightarrow> PracticePage" where
  "setSessionEnded v p = p\<lparr>st := (st p)\<lparr>sessionEnded := v\<rparr>\<rparr>"

definition setFinalScore :: "nat \<Rightarrow> PracticePage \<Rightarrow> PracticePage" where
  "setFinalScore v p = p\<lparr>st := (st p)\<lparr>finalScore := v\<rparr>\<rparr>"

text \<open>\<open>clearTimeout\<close>: the timeout with this id, if still pending, will not run.\<close>

definition clearTimeout :: "nat \<Rightarrow> PracticePage \<Rightarrow> PracticePage" where
  "clearTimeout tid p =
     p\<lparr>timers := filter (\<lambda>e. fst e \<noteq> tid) (timers p),
       hardcodedTimers := filter (\<lambda>e. fst e \<noteq> tid) (hardcodedTimers p)\<rparr>"

subsection \<open>Agent messages and the response scheduler\<close>

text \<open>
  \<open>addAgentMessage\<close>: \<open>now\<close> is \<open>Date.now()\<close>, \<open>rnd\<close> the text of \<open>Math.random()\<close>.
\<close>

definition addAgentMessage :: "nat \<Rightarrow> string \<Rightarrow> Agent \<Rightarrow> string \<Rightarrow> PracticePage \<Rightarrow> PracticePage" where
  "addAgentMessage now rnd agent text p =
     (let newMessage = \<lparr>msg_id = ''msg-'' @ decimal now @ ''-'' @ rnd,
                         agentId = agent_id agent, agentName = agent_name agent,
                         content = text, timestamp = now, isUser = False\<rparr>
      in setMessages (\<lambda>prev. prev @ [newMessage]) p)"

text \<open>
  \<open>scheduleAgentResponse\<close>. \<open>sel\<close> stands for \<open>selectAgentToSpeak\<close>. The guards read
  \<open>scenario\<close>, \<open>agents\<close> and \<open>sessionEnded\<close> of the render; \<open>stateSnapshot ?? convState\<close>
  falls back to the render's \<open>convState\<close>; \<open>scheduledTurnRef\<close> and
  \<open>agentResponseTimers\<close> are refs.
\<close>

definition scheduleAgentResponse ::
  "selector \<Rightarrow> PracticeState \<Rightarrow> ConversationState option \<Rightarrow> PracticePage \<Rightarrow> PracticePage" where
  "scheduleAgentResponse sel r stateSnapshot p =
     (case scenario r of
        None \<Rightarrow> p
      | Some sc \<Rightarrow>
          if agents r = [] \<or> sessionEnded r then p
          else
            let snapshot = (case stateSnapshot of Some s \<Rightarrow> s | None \<Rightarrow> convState r) in
            if \<not> canGenerateAgentResponse snapshot then p
            else if scheduledTurnRef p = Some (turnIndex snapshot) then p
            else
              let p1 = p\<lparr>scheduledTurnRef := Some (turnIndex snapshot)\<rparr> in
              (case sel (messages r) sc (agents r) ActiveHost of
                 None \<Rightarrow> p1\<lparr>scheduledTurnRef := None\<rparr>
               | Some selected \<Rightarrow>
                   p1\<lparr>timers := timers p1 @ [(nextTimer p1, AgentResponseTimer r sc selected)],
                      nextTimer := nextTimer p1 + 1,
                      agentResponseTimers := agentResponseTimers p1 @ [nextTimer p1]\<rparr>))"

text \<open>
  The body of the timeout callback. \<open>sessionEnded\<close>, \<open>convState\<close>, \<open>messages\<close>,
  \<open>difficulty\<close> and the context values are the constants of the render \<open>r\<close> that
  created the callback (the source reads the plain variables, not a ref), whereas
  \<open>scheduledTurnRef.current\<close> is read from the live page. \<open>gen\<close> stands for
  \<open>generateAgentResponse\<close>.
\<close>

definition agentResponseCallback ::
  "generator \<Rightarrow> nat \<Rightarrow> string \<Rightarrow> PracticeState \<Rightarrow> Scenario \<Rightarrow> Agent \<Rightarrow> PracticePage \<Rightarrow> PracticePage" where
  "agentResponseCallback gen now rnd r sc selected p =
     (if sessionEnded r then p
      else
        let current = convState r in
        if \<not> canGenerateAgentResponse current then p
        else if scheduledTurnRef p \<noteq> Some (turnIndex current) then p
        else
          let conversationHistory =
                map (\<lambda>m. if isUser m then ''You: '' @ content m
                          else agentName m @ '': '' @ content m) (messages r);
              ctx = \<lparr>scenarioBasePrompt = basePrompt sc,
                     userExtras = userExtrasForContext r,
                     talkingPoints = talkingPointsForContext r,
                     ctx_presentational = presentational sc\<rparr>;
              response = gen (scenario_type sc) selected (difficulty r) conversationHistory ctx;
              p1 = addAgentMessage now rnd selected response p;
              p2 = setConvState (\<lambda>prev. advanceAfterAgentResponse prev (agent_id selected)) p1
          in p2\<lparr>scheduledTurnRef := None\<rparr>)"

text \<open>
  The browser runs the timeout \<open>tid\<close>: if it is still pending it is removed from the
  table and its callback runs; a cleared or already run timeout does nothing.
\<close>

definition fireTimer :: "generator \<Rightarrow> nat \<Rightarrow> string \<Rightarrow> nat \<Rightarrow> PracticePage \<Rightarrow> PracticePage" where
  "fireTimer gen now rnd tid p =
     (case map_of (timers p) tid of
        None \<Rightarrow> p
      | Some (AgentResponseTimer r sc selected) \<Rightarrow>
          agentResponseCallback gen now rnd r sc selected
            (p\<lparr>timers := filter (\<lambda>e. fst e \<noteq> tid) (timers p)\<rparr>))"

text \<open>
  The greeting timeout of the mount effect (regular agents):
  \<open>addAgentMessage(generatedAgents[0], welcomeMessage)\<close> and
  \<open>setConvState(prev => advanceAfterAgentResponse(prev, generatedAgents[0].id))\<close>.
  An empty \<open>emotionPrefix\<close> is falsy.
\<close>

definition greetingCallback :: "nat \<Rightarrow> string \<Rightarrow> Agent list \<Rightarrow> PracticePage \<Rightarrow> PracticePage" where
  "greetingCallback now rnd generatedAgents p =
     (case generatedAgents of
        [] \<Rightarrow> p
      | a # _ \<Rightarrow>
          let welcomeMessage =
                (if emotionPrefix a \<noteq> []
                 then emotionPrefix a @ '' Hello! Welcome to the session. Feel free to introduce yourself!''
                 else ''Hello! Welcome to the session. Feel free to introduce yourself!'')
          in setConvState (\<lambda>prev. advanceAfterAgentResponse prev (agent_id a))
               (addAgentMessage now rnd a welcomeMessage p))"

subsection \<open>Sending a typed message\<close>

text \<open>
  \<open>handleSendMessage\<close> of \<open>unnamed/part_001\<close>. The updater given to
  \<open>setConvState\<close> receives the live conversation state as \<open>prev\<close> and calls
  \<open>scheduleAgentResponse(next)\<close> of the handler's render.
\<close>

definition userMessage :: "nat \<Rightarrow> string \<Rightarrow> Message" where
  "userMessage now text =
     \<lparr>msg_id = ''msg-'' @ decimal now, agentId = ''user'', agentName = ''You'',
      content = text, timestamp = now, isUser = True\<rparr>"

definition userMessageUpdater :: "selector \<Rightarrow> PracticeState \<Rightarrow> PracticePage \<Rightarrow> PracticePage" where
  "userMessageUpdater sel r p =
     (let next = updateStateOnUserMessage (convState (st p));
          p1 = (if agents r \<noteq> [] \<and> \<not> sessionEnded r
                then scheduleAgentResponse sel r (Some next) p else p)
      in setConvState (\<lambda>prev. next) p1)"

definition handleSendMessage :: "selector \<Rightarrow> nat \<Rightarrow> PracticeState \<Rightarrow> PracticePage \<Rightarrow> PracticePage" where
  "handleSendMessage sel now r p =
     (if trim (userInput r) = [] then p
      else
        let p1 = setMessages (\<lambda>prev. prev @ [userMessage now (userInput r)]) p;
            p2 = setUserInput [] p1
        in userMessageUpdater sel r p2)"

subsection \<open>Hard-coded replies of the presentation scenario (page.tsx)\<close>

definition INVESTMENT_RESPONSES :: "string list" where
  "INVESTMENT_RESPONSES =
     [''That'' @ [CHR 0x27] @ ''s a great point about diversification. As the document mentions, you should avoid concentrated bets and favor broad index funds.'',
      ''Exactly! The core principle is to pay yourself first by automating contributions each payday.'',
      ''You'' @ [CHR 0x27] @ ''re right to focus on expense ratios. Target less than 0.20% for stock index funds and less than 0.10% for bond funds.'',
      ''Good question about the emergency fund. The document recommends saving 3-6 months of expenses in a high-yield savings account first.'',
      ''The three model portfolios are Conservative 60/40, Balanced 70/30, and Aggressive 90/10 for stocks to bonds ratio.'',
      ''For college students, you can start investing with as little as $50 per month. Time in the market beats timing the market.'',
      ''The step-by-step plan starts with your 401(k) up to the employer match, then HSA if eligible, then IRA, and finally a taxable brokerage.'',
      ''Remember, the rule of thumb is to invest about 15% of gross income for retirement, or 20% if you'' @ [CHR 0x27] @ ''re starting later.'']"

text \<open>
  \<open>generateHardcodedResponse\<close>. \<open>pick\<close> stands for the random number:
  \<open>Math.floor(Math.random() * agents.length)\<close> ranges over the indices of the list, as
  \<open>pick mod length\<close> does. The timeout is not recorded in \<open>agentResponseTimers\<close>.
\<close>

definition generateHardcodedResponse :: "nat \<Rightarrow> PracticeState \<Rightarrow> PracticePage \<Rightarrow> PracticePage" where
  "generateHardcodedResponse pick r p =
     (if agents r = [] \<or> sessionEnded r then p
      else
        let agent = agents r ! (pick mod length (agents r));
            response = INVESTMENT_RESPONSES !
                         (hardcodedResponseIndex r mod length INVESTMENT_RESPONSES);
            p1 = setHardcodedResponseIndex (\<lambda>prev. prev + 1) p
        in p1\<lparr>hardcodedTimers := hardcodedTimers p1 @ [(nextTimer p1, HardcodedTimer agent response)],
              nextTimer := nextTimer p1 + 1\<rparr>)"

definition fireHardcodedTimer :: "nat \<Rightarrow> string \<Rightarrow> nat \<Rightarrow> PracticePage \<Rightarrow> PracticePage" where
  "fireHardcodedTimer now rnd tid p =
     (case map_of (hardcodedTimers p) tid of
        None \<Rightarrow> p
      | Some (HardcodedTimer agent response) \<Rightarrow>
          addAgentMessage now rnd agent response
            (p\<lparr>hardcodedTimers := filter (\<lambda>e. fst e \<noteq> tid) (hardcodedTimers p)\<rparr>))"

text \<open>\<open>handleSendMessage\<close> of page.tsx.\<close>

definition handleSendMessage_page ::
  "selector \<Rightarrow> nat \<Rightarrow> nat \<Rightarrow> PracticeState \<Rightarrow> PracticePage \<Rightarrow> PracticePage" where
  "handleSendMessage_page sel pick now r p =
     (if trim (userInput r) = [] then p
      else
        let p1 = setMessages (\<lambda>prev. prev @ [userMessage now (userInput r)]) p;
            p2 = setUserInput [] p1
        in if map_option scenario_id (scenario r) = Some ''presentation''
           then generateHardcodedResponse pick r p2
           else userMessageUpdater sel r p2)"

subsection \<open>Ending the session\<close>

text \<open>
  \<open>handleEndSession\<close> of \<open>unnamed/part_001\<close>. \<open>calc\<close> stands for
  \<open>calculateScore\<close> (missing module), \<open>date\<close> for \<open>new Date().toISOString()\<close>.
  \<open>fullTranscript.trim() || null\<close>: an empty string is falsy.
\<close>

definition handleEndSession ::
  "(nat \<Rightarrow> nat \<Rightarrow> DifficultyLevel \<Rightarrow> nat) \<Rightarrow> string \<Rightarrow> PracticeState \<Rightarrow> PracticePage \<Rightarrow> PracticePage" where
  "handleEndSession calc date r p =
     (let p1 = setSessionEnded True (setIsActive False p);
          p2 = fold clearTimeout (agentResponseTimers p1) p1;
          p3 = p2\<lparr>agentResponseTimers := []\<rparr>;
          userMessages = length (filter isUser (messages r));
          score = calc userMessages (timeElapsed r) (difficulty r);
          p4 = setFinalScore score p3
      in p4\<lparr>practiceSessions := practiceSessions p4 @
            [\<lparr>sum_scenarioId = map_option scenario_id (scenario r), sum_date = date,
              sum_score = score, sum_duration = timeElapsed r, sum_difficulty = difficulty r,
              sum_transcript = (if trim (fullTranscript r) \<noteq> [] then Some (trim (fullTranscript r))
                                else None)\<rparr>]\<rparr>)"

text \<open>
  \<open>handleEndSession\<close> of page.tsx: it also clears the timeout in \<open>qaTimerRef\<close>
  (\<open>if (qaTimerRef.current)\<close>: null and 0 are falsy) and falls back to
  \<open>userSpeechBuffer\<close> for the transcript.
\<close>

definition handleEndSession_page ::
  "(nat \<Rightarrow> nat \<Rightarrow> DifficultyLevel \<Rightarrow> nat) \<Rightarrow> string \<Rightarrow> PracticeState \<Rightarrow> PracticePage \<Rightarrow> PracticePage" where
  "handleEndSession_page calc date r p =
     (let p1 = setSessionEnded True (setIsActive False p);
          p2 = fold clearTimeout (agentResponseTimers p1) p1;
          p3 = p2\<lparr>agentResponseTimers := []\<rparr>;
          p4 = (case qaTimerRef p3 of
                  None \<Rightarrow> p3
                | Some t \<Rightarrow> if t \<noteq> 0 then clearTimeout t p3 else p3);
          userMessages = length (filter isUser (messages r));
          score = calc userMessages (timeElapsed r) (difficulty r);
          p5 = setFinalScore score p4
      in p5\<lparr>practiceSessions := practiceSessions p5 @
            [\<lparr>sum_scenarioId = map_option scenario_id (scenario r), sum_date = date,
              sum_score = score, sum_duration = timeElapsed r, sum_difficulty = difficulty r,
              sum_transcript =
                (if trim (fullTranscript r) \<noteq> [] then Some (trim (fullTranscript r))
                 else if trim (userSpeechBuffer r) \<noteq> [] then Some (trim (userSpeechBuffer r))
                 else None)\<rparr>]\<rparr>)"

subsection \<open>The conversational-AI endpoint\<close>

text \<open>
  What the awaited \<open>fetch('/api/gemini/interview')\<close> and the reading of its body can
  deliver inside the \<open>try\<close> block:
  \<^item> \<open>Threw m\<close>: a statement of the block threw an error with message \<open>m\<close>
    (\<open>fetch\<close> rejected, the body of an ok response could not be read, or the body of a
    failed response was \<open>null\<close>, so that \<open>errorData.error\<close> threw);
  \<^item> \<open>NotOk e\<close>: \<open>response.ok\<close> is false; \<open>e\<close> is the \<open>error\<close> field of the body
    (\<open>None\<close> when the body is not JSON or has no such field);
  \<^item> \<open>OkBody text history\<close>: the success response \<open>{response, conversationHistory}\<close>.
\<close>

datatype FetchOutcome =
    Threw string
  | NotOk "string option"
  | OkBody string "(string \<times> string) list"

text \<open>
  The message of the error that reaches the \<open>catch\<close> block, if any. For a failed
  response the handler throws
  \<open>new Error(errorData.error || 'Failed to get response from interviewer')\<close>; an empty
  string is falsy.
\<close>

fun thrownMessage :: "FetchOutcome \<Rightarrow> string option" where
  "thrownMessage (Threw m) = Some m"
| "thrownMessage (NotOk None) = Some ''Failed to get response from interviewer''"
| "thrownMessage (NotOk (Some e)) =
     (if e = [] then Some ''Failed to get response from interviewer'' else Some e)"
| "thrownMessage (OkBody text history) = None"

definition errorMessage :: "nat \<Rightarrow> string \<Rightarrow> Message" where
  "errorMessage now m =
     \<lparr>msg_id = ''error-'' @ decimal now, agentId = ''system'', agentName = ''System'',
      content = ''Sorry, I encountered an error: '' @ m @ ''. Please try again.'',
      timestamp = now, isUser = False\<rparr>"

definition defaultInterviewer :: Agent where
  "defaultInterviewer =
     \<lparr>agent_id = ''ai'', agent_name = ''AI Interviewer'',
      voiceId = ''b5f4515fd395410b9ed3aef6fa51d9a0'', emotionPrefix = []\<rparr>"

text \<open>
  \<open>handleGeminiInterviewerResponse\<close> is an async function. Up to the awaited
  \<open>fetch\<close> it runs at once (\<open>geminiStart\<close>); the rest runs when the response or the
  error arrives (\<open>geminiSettle\<close>), on whatever the live page is by then.
  \<open>agents[currentAgentIndex % agents.length] || agents[0] || {...}\<close> yields the
  default only for an empty agent list.
\<close>

definition geminiStart :: "PracticeState \<Rightarrow> PracticePage \<Rightarrow> PracticePage" where
  "geminiStart r p =
     (if isGeminiProcessing r \<or> scenario r = None then p else setIsGeminiProcessing True p)"

definition geminiSettle ::
  "nat \<Rightarrow> string \<Rightarrow> PracticeState \<Rightarrow> FetchOutcome \<Rightarrow> PracticePage \<Rightarrow> PracticePage" where
  "geminiSettle now rnd r outcome p =
     setIsGeminiProcessing False
       (case outcome of
          OkBody assistantText history \<Rightarrow>
            let p1 = setGeminiConversationHistory history p;
                aiAgent = (if agents r = [] then defaultInterviewer
                           else agents r ! (currentAgentIndex r mod length (agents r)));
                p2 = setCurrentAgentIndex (\<lambda>prev. prev + 1) p1
            in addAgentMessage now rnd aiAgent assistantText p2
        | _ \<Rightarrow>
            (case thrownMessage outcome of
               None \<Rightarrow> p
             | Some m \<Rightarrow> setMessages (\<lambda>prev. prev @ [errorMessage now m]) p))"

text \<open>The whole handler, when nothing else happens between request and response.\<close>

definition handleGeminiInterviewerResponse ::
  "nat \<Rightarrow> string \<Rightarrow> PracticeState \<Rightarrow> string \<Rightarrow> FetchOutcome \<Rightarrow> PracticePage \<Rightarrow> PracticePage" where
  "handleGeminiInterviewerResponse now rnd r userText outcome p =
     (if isGeminiProcessing r \<or> scenario r = None then p
      else geminiSettle now rnd r outcome (geminiStart r p))"

text \<open>
  The greeting request of the mount effect (\<open>initGreeting\<close>, taken when
  \<open>useGeminiInterviewer\<close> is set and agents were generated), from the point where the
  awaited \<open>fetch\<close> settles. A response that is not ok is skipped without its body being
  read; an error thrown inside the \<open>try\<close> block leads to the default greeting.
\<close>

definition initGreetingSettle ::
  "nat \<Rightarrow> string \<Rightarrow> Agent list \<Rightarrow> FetchOutcome \<Rightarrow> PracticePage \<Rightarrow> PracticePage" where
  "initGreetingSettle now rnd generatedAgents outcome p =
     (case generatedAgents of
        [] \<Rightarrow> p
      | aiAgent # _ \<Rightarrow>
          (case outcome of
             OkBody greeting history \<Rightarrow>
               setCurrentAgentIndex (\<lambda>prev. 1)
                 (setMessages
                    (\<lambda>prev. [\<lparr>msg_id = ''msg-'' @ decimal now, agentId = agent_id aiAgent,
                               agentName = agent_name aiAgent, content = greeting,
                               timestamp = now, isUser = False\<rparr>])
                    (setGeminiConversationHistory history p))
           | NotOk e \<Rightarrow> p
           | Threw m \<Rightarrow>
               addAgentMessage now rnd aiAgent
                 ''Hello! Welcome to the session. Feel free to introduce yourself!'' p))"

subsection \<open>Speech results on the practice page\<close>

text \<open>
  \<open>recognition.onresult\<close>. \<open>results\<close> are the entries from \<open>event.resultIndex\<close> on,
  each with its transcript and its \<open>isFinal\<close> flag; \<open>now\<close> is \<open>Date.now()\<close>.
\<close>

definition finalText :: "(string \<times> bool) list \<Rightarrow> string" where
  "finalText results = concat (map (\<lambda>(t, fin). if fin then t @ '' '' else []) results)"

definition interimText :: "(string \<times> bool) list \<Rightarrow> string" where
  "interimText results = concat (map (\<lambda>(t, fin). if fin then [] else t) results)"

definition onresult ::
  "selector \<Rightarrow> nat \<Rightarrow> PracticeState \<Rightarrow> (string \<times> bool) list \<Rightarrow> PracticePage \<Rightarrow> PracticePage" where
  "onresult sel now r results p =
     (let p0 = setInterimTranscript (interimText results) p in
      if trim (finalText results) \<noteq> [] then
        if int now - int (lastTranscriptTimeRef p0) > 2000 then
          let p1 = setMessages (\<lambda>prev. prev @ [userMessage now (trim (finalText results))]) p0;
              p2 = setFullTranscript (\<lambda>prev. prev @ '' '' @ finalText results) p1;
              p3 = (if useGeminiInterviewer r then geminiStart r p2
                    else userMessageUpdater sel r p2)
          in p3\<lparr>lastTranscriptTimeRef := now\<rparr>
        else p0
      else p0)"

section \<open>The interview page\<close>

text \<open>
  \<open>InterviewPracticePage\<close> (\<open>unnamed/part_000\<close>), modelled like the practice
  page: \<open>InterviewState\<close> for the state hooks, \<open>InterviewPage\<close> for the live state
  and the ref \<open>lastTranscriptTimeRef\<close>. The awaited \<open>ttsService.queueSpeech\<close> after a
  successful reply is not modelled.
\<close>

datatype Role = RoleUser | RoleAssistant

record DisplayMessage =
  dm_id :: string
  dm_role :: Role
  dm_content :: string
  dm_timestamp :: nat

record InterviewState =
  iv_messages :: "DisplayMessage list"
  conversationHistory :: "(string \<times> string) list"
  isProcessing :: bool
  sessionActive :: bool
  iv_interimTranscript :: string
  ttsEnabled :: bool
  customSystemPrompt :: string
  useCustomPrompt :: bool

record InterviewPage =
  ist :: InterviewState
  iv_lastTranscriptTimeRef :: nat

definition iv_setMessages ::
  "(DisplayMessage list \<Rightarrow> DisplayMessage list) \<Rightarrow> InterviewPage \<Rightarrow> InterviewPage" where
  "iv_setMessages f p = p\<lparr>ist := (ist p)\<lparr>iv_messages := f (iv_messages (ist p))\<rparr>\<rparr>"

definition setIsProcessing :: "bool \<Rightarrow> InterviewPage \<Rightarrow> InterviewPage" where
  "setIsProcessing v p = p\<lparr>ist := (ist p)\<lparr>isProcessing := v\<rparr>\<rparr>"

definition setConversationHistory :: "(string \<times> string) list \<Rightarrow> InterviewPage \<Rightarrow> InterviewPage" where
  "setConversationHistory v p = p\<lparr>ist := (ist p)\<lparr>conversationHistory := v\<rparr>\<rparr>"

definition iv_setInterimTranscript :: "string \<Rightarrow> InterviewPage \<Rightarrow> InterviewPage" where
  "iv_setInterimTranscript v p = p\<lparr>ist := (ist p)\<lparr>iv_interimTranscript := v\<rparr>\<rparr>"

definition iv_userMessage :: "nat \<Rightarrow> string \<Rightarrow> DisplayMessage" where
  "iv_userMessage now text =
     \<lparr>dm_id = ''user-'' @ decimal now, dm_role = RoleUser, dm_content = text,
      dm_timestamp = now\<rparr>"

definition iv_errorMessage :: "nat \<Rightarrow> string \<Rightarrow> DisplayMessage" where
  "iv_errorMessage now m =
     \<lparr>dm_id = ''error-'' @ decimal now, dm_role = RoleAssistant,
      dm_content = ''Sorry, I encountered an error: '' @ m @ ''. Please try again.'',
      dm_timestamp = now\<rparr>"

text \<open>
  \<open>handleUserSpeech\<close>, split at the awaited \<open>fetch\<close> like the Gemini handler above.
\<close>

definition handleUserSpeech_start :: "nat \<Rightarrow> InterviewState \<Rightarrow> string \<Rightarrow> InterviewPage \<Rightarrow> InterviewPage" where
  "handleUserSpeech_start now r text p =
     (if trim text = [] \<or> isProcessing r then p
      else setIsProcessing True (iv_setMessages (\<lambda>prev. prev @ [iv_userMessage now text]) p))"

definition handleUserSpeech_settle ::
  "nat \<Rightarrow> InterviewState \<Rightarrow> FetchOutcome \<Rightarrow> InterviewPage \<Rightarrow> InterviewPage" where
  "handleUserSpeech_settle now r outcome p =
     setIsProcessing False
       (case outcome of
          OkBody assistantText history \<Rightarrow>
            iv_setMessages
              (\<lambda>prev. prev @ [\<lparr>dm_id = ''assistant-'' @ decimal now, dm_role = RoleAssistant,
                                dm_content = assistantText, dm_timestamp = now\<rparr>])
              (setConversationHistory history p)
        | _ \<Rightarrow>
            (case thrownMessage outcome of
               None \<Rightarrow> p
             | Some m \<Rightarrow> iv_setMessages (\<lambda>prev. prev @ [iv_errorMessage now m]) p))"

definition handleUserSpeech ::
  "nat \<Rightarrow> nat \<Rightarrow> InterviewState \<Rightarrow> string \<Rightarrow> FetchOutcome \<Rightarrow> InterviewPage \<Rightarrow> InterviewPage" where
  "handleUserSpeech now later r text outcome p =
     (if trim text = [] \<or> isProcessing r then p
      else handleUserSpeech_settle later r outcome (handleUserSpeech_start now r text p))"

text \<open>\<open>recognition.onresult\<close> of the interview page.\<close>

definition iv_onresult ::
  "nat \<Rightarrow> InterviewState \<Rightarrow> (string \<times> bool) list \<Rightarrow> InterviewPage \<Rightarrow> InterviewPage" where
  "iv_onresult now r results p =
     (let p0 = iv_setInterimTranscript (interimText results) p in
      if trim (finalText results) \<noteq> [] then
        if int now - int (iv_lastTranscriptTimeRef p0) > 1500 then
          (handleUserSpeech_start now r (trim (finalText results)) p0)
            \<lparr>iv_lastTranscriptTimeRef := now\<rparr>
        else p0
      else p0)"

section \<open>Events of a practice session\<close>

text \<open>
  The events that reach the response scheduler: a pending timeout of
  \<open>scheduleAgentResponse\<close> is run by the browser (\<open>TimerFires tid now rnd\<close>), the
  user types a text and sends it (\<open>UserSends text now\<close>; the handler of the latest
  render, so its render is the live state), and the session is ended
  (\<open>SessionEnds date\<close>). The second variants of sending and ending are those of
  page.tsx.
\<close>

datatype Event =
    TimerFires nat nat string
  | UserSends string nat
  | UserSendsPage string nat nat
  | SessionEnds string
  | SessionEndsPage string

definition step ::
  "selector \<Rightarrow> generator \<Rightarrow> (nat \<Rightarrow> nat \<Rightarrow> DifficultyLevel \<Rightarrow> nat) \<Rightarrow> Event
     \<Rightarrow> PracticePage \<Rightarrow> PracticePage" where
  "step sel gen calc ev p =
     (case ev of
        TimerFires tid now rnd \<Rightarrow> fireTimer gen now rnd tid p
      | UserSends text now \<Rightarrow>
          (let p0 = setUserInput text p in handleSendMessage sel now (st p0) p0)
      | UserSendsPage text pick now \<Rightarrow>
          (let p0 = setUserInput text p in handleSendMessage_page sel pick now (st p0) p0)
      | SessionEnds date \<Rightarrow> handleEndSession calc date (st p) p
      | SessionEndsPage date \<Rightarrow> handleEndSession_page calc date (st p) p)"

definition run ::
  "selector \<Rightarrow> generator \<Rightarrow> (nat \<Rightarrow> nat \<Rightarrow> DifficultyLevel \<Rightarrow> nat) \<Rightarrow> Event list
     \<Rightarrow> PracticePage \<Rightarrow> PracticePage" where
  "run sel gen calc evs p = fold (step sel gen calc) evs p"

definition agentMessages :: "PracticePage \<Rightarrow> Message list" where
  "agentMessages p = filter (\<lambda>m. \<not> isUser m) (messages (st p))"

text \<open>Every pending timeout of the scheduler is recorded in \<open>agentResponseTimers\<close>.\<close>

definition tracked :: "PracticePage \<Rightarrow> bool" where
  "tracked p = list_all (\<lambda>e. fst e \<in> set (agentResponseTimers p)) (timers p)"

text \<open>The session has ended and no timeout of the scheduler is pending.\<close>

definition quiet :: "PracticePage \<Rightarrow> bool" where
  "quiet q = (timers q = [] \<and> sessionEnded (st q))"

text \<open>
  The invariant behind the behaviour of the scheduler. \<open>inertTimers\<close>: every pending
  timeout was created in a render whose conversation state did not await an agent turn.
  \<open>markerCurrent\<close>: while the live state awaits an agent turn, \<open>scheduledTurnRef\<close>
  holds its turn index. \<open>totalSelector\<close>: the selector finds an agent whenever there is
  one.
\<close>

definition inertTimers :: "PracticePage \<Rightarrow> bool" where
  "inertTimers p =
     list_all (\<lambda>e. case snd e of AgentResponseTimer r sc a \<Rightarrow> \<not> awaitingAgentTurn (convState r))
       (timers p)"

definition markerCurrent :: "PracticePage \<Rightarrow> bool" where
  "markerCurrent p =
     (if awaitingAgentTurn (convState (st p))
      then scheduledTurnRef p = Some (turnIndex (convState (st p))) else True)"

definition totalSelector :: "selector \<Rightarrow> bool" where
  "totalSelector sel = (\<forall>h sc ags. ags \<noteq> [] \<longrightarrow> sel h sc ags ActiveHost \<noteq> None)"

text \<open>A page with scenario and agents on which the invariant holds.\<close>

definition silent :: "PracticePage \<Rightarrow> bool" where
  "silent p =
     (inertTimers p \<and> scenario (st p) \<noteq> None \<and> agents (st p) \<noteq> []
      \<and> (sessionEnded (st p) \<or> markerCurrent p))"

subsection \<open>A concrete session\<close>

definition demoAgent :: "string \<Rightarrow> Agent" where
  "demoAgent n = \<lparr>agent_id = n, agent_name = n, voiceId = ''voice'', emotionPrefix = []\<rparr>"

definition demoScenario :: Scenario where
  "demoScenario = \<lparr>scenario_id = ''interview'', scenario_type = ''interview'',
                    basePrompt = ''Job interview'', presentational = None\<rparr>"

text \<open>The page after mounting: two agents generated, nothing said yet.\<close>

definition mountedState :: PracticeState where
  "mountedState =
     \<lparr>scenario = Some demoScenario, agents = [demoAgent ''host'', demoAgent ''guest''],
      messages = [], convState = initConversationState, userInput = [], timeElapsed = 0,
      isActive = True, difficulty = Medium, sessionEnded = False, finalScore = 0,
      userExtrasForContext = [], talkingPointsForContext = [], useGeminiInterviewer = False,
      geminiConversationHistory = [], isGeminiProcessing = False, currentAgentIndex = 0,
      hardcodedResponseIndex = 0, interimTranscript = [], fullTranscript = [],
      userSpeechBuffer = []\<rparr>"

definition mountedPage :: PracticePage where
  "mountedPage =
     \<lparr>st = mountedState, scheduledTurnRef = None, agentResponseTimers = [],
      lastTranscriptTimeRef = 0, qaTimerRef = None, timers = [], hardcodedTimers = [],
      nextTimer = 1, practiceSessions = []\<rparr>"

text \<open>
  A page value on which one user message is recorded, the conversation state awaits an
  agent turn and no turn is scheduled, and the page after a message sent from it. The
  timeout pending on \<open>pendingPage\<close> was created in a render that awaited an agent
  turn, so its callback would append a message.
\<close>

definition awaitingPage :: PracticePage where
  "awaitingPage =
     mountedPage\<lparr>st := mountedState\<lparr>messages := [userMessage 500 ''Hi''],
                                       convState := \<lparr>turnIndex = 0, awaitingAgentTurn = True\<rparr>\<rparr>\<rparr>"

definition pendingPage :: PracticePage where
  "pendingPage =
     handleSendMessage selectAgentToSpeak 1500 (st (setUserInput ''Are you there?'' awaitingPage))
       (setUserInput ''Are you there?'' awaitingPage)"

text \<open>The user's first message, sent from the freshly mounted page.\<close>

definition sentPage :: PracticePage where
  "sentPage =
     handleSendMessage selectAgentToSpeak 1000
       (st (setUserInput ''Tell me about yourself'' mountedPage))
       (setUserInput ''Tell me about yourself'' mountedPage)"



text \<open>
  The mounted page in Gemini mode, and the same page after a first speech result has
  been processed: the user's message is recorded and the request is in flight.
\<close>

definition geminiPage :: PracticePage where
  "geminiPage = mountedPage\<lparr>st := mountedState\<lparr>useGeminiInterviewer := True\<rparr>\<rparr>"

definition askedPage :: PracticePage where
  "askedPage =
     onresult selectAgentToSpeak 2500 (st geminiPage) [(''hello there'', True)] geminiPage"

definition demoGenerator :: generator where
  "demoGenerator ty a d h c = ''Interesting, tell me more.''"

definition demoScore :: "nat \<Rightarrow> nat \<Rightarrow> DifficultyLevel \<Rightarrow> nat" where
  "demoScore userMessages seconds d = 50 + userMessages"

definition mountedInterview :: InterviewPage where
  "mountedInterview =
     \<lparr>ist = \<lparr>iv_messages = [], conversationHistory = [], isProcessing = False,
             sessionActive = True, iv_interimTranscript = [], ttsEnabled = True,
             customSystemPrompt = [], useCustomPrompt = False\<rparr>,
      iv_lastTranscriptTimeRef = 0\<rparr>"

text \<open>The interview page after \<open>handleUserSpeech\<close> has sent its request.\<close>

definition askedInterview :: InterviewPage where
  "askedInterview =
     handleUserSpeech_start 6000 (ist mountedInterview) ''hello there'' mountedInterview"

text \<open>A history in which the host greeted and the user answered.\<close>

definition greetedHistory :: "Message list" where
  "greetedHistory =
     [\<lparr>msg_id = ''msg-2000-0.1'', agentId = ''host'', agentName = ''host'',
       content = ''Hello!'', timestamp = 2000, isUser = False\<rparr>,
      userMessage 3000 ''Hi'']"

section \<open>Properties of the conversation state\<close>

text \<open>
  C4. For every conversation state \<open>s\<close>, the turn gate allows a response after
  \<open>updateStateOnUserMessage\<close>, and that transition sets awaitingAgentTurn and leaves
  turnIndex as it was in \<open>s\<close>.
\<close>

theorem user_message_opens_gate:
  "canGenerateAgentResponse (updateStateOnUserMessage s)
   \<and> awaitingAgentTurn (updateStateOnUserMessage s) = True
   \<and> turnIndex (updateStateOnUserMessage s) = turnIndex s"
  by (simp add: canGenerateAgentResponse_def updateStateOnUserMessage_def)

text \<open>
  C5. For every conversation state \<open>s\<close> and every agent \<open>a\<close>, after a user message
  followed by the agent's response the turn gate is closed, turnIndex is exactly
  \<open>turnIndex s + 1\<close> and awaitingAgentTurn is false.
\<close>

theorem agent_response_closes_gate:
  "\<not> canGenerateAgentResponse (advanceAfterAgentResponse (updateStateOnUserMessage s) a)
   \<and> turnIndex (advanceAfterAgentResponse (updateStateOnUserMessage s) a) = turnIndex s + 1
   \<and> awaitingAgentTurn (advanceAfterAgentResponse (updateStateOnUserMessage s) a) = False"
  by (simp add: canGenerateAgentResponse_def advanceAfterAgentResponse_def
      updateStateOnUserMessage_def)

section \<open>Properties of the agent selector\<close>

lemma leastRecent_split:
  "xs \<noteq> [] \<Longrightarrow> \<exists>a pre post. leastRecent h xs = Some a \<and> xs = pre @ a # post
     \<and> (\<forall>b\<in>set pre. lastSpokeAt h (agent_id a) < lastSpokeAt h (agent_id b))
     \<and> (\<forall>b\<in>set post. lastSpokeAt h (agent_id a) \<le> lastSpokeAt h (agent_id b))"
proof (induction xs)
  case Nil
  then show ?case by simp
next
  case (Cons x xs)
  show ?case
  proof (cases "xs = []")
    case True
    have "leastRecent h (x # xs) = Some x \<and> x # xs = [] @ x # []" using True by simp
    then show ?thesis by fastforce
  next
    case False
    from Cons.IH [OF False] obtain a pre post where
      sel: "leastRecent h xs = Some a" and spl: "xs = pre @ a # post"
      and before: "\<forall>b\<in>set pre. lastSpokeAt h (agent_id a) < lastSpokeAt h (agent_id b)"
      and after: "\<forall>b\<in>set post. lastSpokeAt h (agent_id a) \<le> lastSpokeAt h (agent_id b)"
      by blast
    show ?thesis
    proof (cases "lastSpokeAt h (agent_id x) \<le> lastSpokeAt h (agent_id a)")
      case True
      have "leastRecent h (x # xs) = Some x" using sel True by simp
      moreover have "x # xs = [] @ x # xs" by simp
      moreover have "\<forall>b\<in>set xs. lastSpokeAt h (agent_id x) \<le> lastSpokeAt h (agent_id b)"
        using True before after spl by fastforce
      ultimately show ?thesis by (metis empty_iff list.set(1))
    next
      case False
      have "leastRecent h (x # xs) = Some a" using sel False by simp
      moreover have "x # xs = (x # pre) @ a # post" using spl by simp
      moreover have "\<forall>b\<in>set (x # pre). lastSpokeAt h (agent_id a) < lastSpokeAt h (agent_id b)"
        using False before by auto
      ultimately show ?thesis using after by blast
    qed
  qed
qed

lemma others_nonempty:
  assumes "2 \<le> length ags" "distinct (map agent_id ags)"
  shows "filter (\<lambda>a. s \<noteq> Some (agent_id a)) ags \<noteq> []"
proof -
  obtain a b rest where ab: "ags = a # b # rest"
    using assms(1) by (cases ags; cases "tl ags") auto
  then have "agent_id a \<noteq> agent_id b" using assms(2) by auto
  then have "s \<noteq> Some (agent_id a) \<or> s \<noteq> Some (agent_id b)" by auto
  then show ?thesis using ab by (auto simp: filter_empty_conv)
qed

text \<open>
  C7. With strategy "active-host" the selector returns null for an empty agent list;
  for a non-empty history and at least two ags (with distinct ids) it returns an
  agent of the list whose id differs from the most recent non-user speaker. Among the
  ags that are not the last speaker the chosen one spoke least recently, and every
  such agent standing before it in the list spoke strictly more recently (ties go to the
  earlier list position).
\<close>

theorem active_host_no_repeat:
  "selectAgentToSpeak h sc [] ActiveHost = None
   \<and> (h \<noteq> [] \<and> 2 \<le> length ags \<and> distinct (map agent_id ags) \<longrightarrow>
       (\<exists>a pre post. selectAgentToSpeak h sc ags ActiveHost = Some a
          \<and> a \<in> set ags
          \<and> lastNonUserSpeaker h \<noteq> Some (agent_id a)
          \<and> filter (\<lambda>b. lastNonUserSpeaker h \<noteq> Some (agent_id b)) ags = pre @ a # post
          \<and> (\<forall>b\<in>set pre. lastSpokeAt h (agent_id a) < lastSpokeAt h (agent_id b))
          \<and> (\<forall>b\<in>set post. lastSpokeAt h (agent_id a) \<le> lastSpokeAt h (agent_id b))))"
proof (intro conjI impI)
  show "selectAgentToSpeak h sc [] ActiveHost = None"
    by (simp add: selectAgentToSpeak_def)
next
  assume hyp: "h \<noteq> [] \<and> 2 \<le> length ags \<and> distinct (map agent_id ags)"
  let ?others = "filter (\<lambda>b. lastNonUserSpeaker h \<noteq> Some (agent_id b)) ags"
  have ne: "?others \<noteq> []" using hyp others_nonempty by blast
  have sel: "selectAgentToSpeak h sc ags ActiveHost = leastRecent h ?others"
    using hyp ne by (auto simp: selectAgentToSpeak_def Let_def)
  from leastRecent_split [OF ne, of h] obtain a pre post where
    a: "leastRecent h ?others = Some a" "?others = pre @ a # post"
      "\<forall>b\<in>set pre. lastSpokeAt h (agent_id a) < lastSpokeAt h (agent_id b)"
      "\<forall>b\<in>set post. lastSpokeAt h (agent_id a) \<le> lastSpokeAt h (agent_id b)"
    by blast
  have "a \<in> set ?others" using a(2) by simp
  then have "a \<in> set ags" "lastNonUserSpeaker h \<noteq> Some (agent_id a)" by auto
  then show "\<exists>a pre post. selectAgentToSpeak h sc ags ActiveHost = Some a
          \<and> a \<in> set ags
          \<and> lastNonUserSpeaker h \<noteq> Some (agent_id a)
          \<and> ?others = pre @ a # post
          \<and> (\<forall>b\<in>set pre. lastSpokeAt h (agent_id a) < lastSpokeAt h (agent_id b))
          \<and> (\<forall>b\<in>set post. lastSpokeAt h (agent_id a) \<le> lastSpokeAt h (agent_id b))"
    using sel a by auto
qed

theorem active_host_no_repeat_witness:
  "greetedHistory \<noteq> []
   \<and> 2 \<le> length [demoAgent ''host'', demoAgent ''guest'']
   \<and> distinct (map agent_id [demoAgent ''host'', demoAgent ''guest''])
   \<and> lastNonUserSpeaker greetedHistory = Some ''host''
   \<and> (\<exists>a. selectAgentToSpeak greetedHistory demoScenario
              [demoAgent ''host'', demoAgent ''guest''] ActiveHost = Some a
          \<and> lastNonUserSpeaker greetedHistory \<noteq> Some (agent_id a))"
proof -
  have hyp: "greetedHistory \<noteq> [] \<and> 2 \<le> length [demoAgent ''host'', demoAgent ''guest'']
             \<and> distinct (map agent_id [demoAgent ''host'', demoAgent ''guest''])"
    by (simp add: greetedHistory_def demoAgent_def)
  have last: "lastNonUserSpeaker greetedHistory = Some ''host''"
    by (simp add: greetedHistory_def lastNonUserSpeaker_def userMessage_def)
  from active_host_no_repeat [of greetedHistory demoScenario
      "[demoAgent ''host'', demoAgent ''guest'']"] hyp
  have "\<exists>a. selectAgentToSpeak greetedHistory demoScenario
              [demoAgent ''host'', demoAgent ''guest''] ActiveHost = Some a
          \<and> lastNonUserSpeaker greetedHistory \<noteq> Some (agent_id a)"
    by blast
  with hyp last show ?thesis by blast
qed

section \<open>Properties of the practice page\<close>

lemmas setters = setMessages_def setConvState_def setUserInput_def setInterimTranscript_def
  setFullTranscript_def setIsGeminiProcessing_def setGeminiConversationHistory_def
  setCurrentAgentIndex_def setHardcodedResponseIndex_def setIsActive_def setSessionEnded_def
  setFinalScore_def

subsection \<open>Sending an empty input\<close>

lemma trim_blank: "\<forall>c\<in>set s. isWhiteSpace c \<Longrightarrow> trim s = []"
proof -
  assume "\<forall>c\<in>set s. isWhiteSpace c"
  then have blank: "dropWhile isWhiteSpace s = []" by simp
  show ?thesis unfolding trim_def blank by simp
qed

text \<open>
  C10. When \<open>userInput\<close> is empty or consists of white space only, \<open>handleSendMessage\<close>
  (of either practice page) returns the page as it was: no message, no change of the
  conversation state, no scheduled response.
\<close>

theorem blank_send_is_noop:
  assumes "\<forall>c\<in>set (userInput r). isWhiteSpace c"
  shows "handleSendMessage sel now r p = p \<and> handleSendMessage_page sel pick now r p = p"
  using trim_blank [OF assms] by (simp add: handleSendMessage_def handleSendMessage_page_def)

theorem blank_send_is_noop_witness:
  "handleSendMessage selectAgentToSpeak 1000
     (st (setUserInput ('' '' @ [CHR 0x09, CHR 0xA0]) mountedPage))
     (setUserInput ('' '' @ [CHR 0x09, CHR 0xA0]) mountedPage)
   = setUserInput ('' '' @ [CHR 0x09, CHR 0xA0]) mountedPage
   \<and> handleSendMessage_page selectAgentToSpeak 0 1000
     (st (setUserInput ('' '' @ [CHR 0x09, CHR 0xA0]) mountedPage))
     (setUserInput ('' '' @ [CHR 0x09, CHR 0xA0]) mountedPage)
   = setUserInput ('' '' @ [CHR 0x09, CHR 0xA0]) mountedPage"
proof -
  have blank: "\<forall>c\<in>set (userInput (st (setUserInput ('' '' @ [CHR 0x09, CHR 0xA0]) mountedPage))).
                 isWhiteSpace c"
    by (simp add: setUserInput_def isWhiteSpace_def)
  show ?thesis by (rule blank_send_is_noop [OF blank])
qed

subsection \<open>The response scheduler\<close>

text \<open>
  What the timeout callback decides on: the render it was created in and the live
  \<open>scheduledTurnRef\<close>. The live conversation state does not enter the decision.
\<close>

lemma callback_inert:
  "\<not> awaitingAgentTurn (convState r) \<Longrightarrow> agentResponseCallback gen now rnd r sc a q = q"
  by (simp add: agentResponseCallback_def canGenerateAgentResponse_def)

lemma callback_decision:
  "agentResponseCallback gen now rnd r sc a p \<noteq> p \<Longrightarrow>
     \<not> sessionEnded r \<and> awaitingAgentTurn (convState r)
     \<and> scheduledTurnRef p = Some (turnIndex (convState r))"
  by (auto simp: agentResponseCallback_def canGenerateAgentResponse_def Let_def split: if_splits)

text \<open>The re-entry guard: a second call for the same turn index changes nothing.\<close>

lemma schedule_same_turn_noop:
  "scheduledTurnRef p = Some (turnIndex snap) \<Longrightarrow> scheduleAgentResponse sel r (Some snap) p = p"
  by (simp add: scheduleAgentResponse_def split: option.splits)

lemma schedule_marks_turn:
  "timers (scheduleAgentResponse sel r (Some snap) p) \<noteq> timers p \<Longrightarrow>
     scheduledTurnRef (scheduleAgentResponse sel r (Some snap) p) = Some (turnIndex snap)
     \<and> length (timers (scheduleAgentResponse sel r (Some snap) p)) = length (timers p) + 1"
  by (auto simp: scheduleAgentResponse_def Let_def split: option.splits if_splits)

lemma schedule_twice:
  assumes "timers (scheduleAgentResponse sel r (Some snap) p) \<noteq> timers p"
    and "turnIndex snap' = turnIndex snap"
  shows "scheduleAgentResponse sel' r' (Some snap') (scheduleAgentResponse sel r (Some snap) p)
         = scheduleAgentResponse sel r (Some snap) p"
  using schedule_marks_turn [OF assms(1)] assms(2) by (simp add: schedule_same_turn_noop)

text \<open>
  A timeout created by a send carries the render of that send, that is, the
  conversation state before \<open>updateStateOnUserMessage\<close>. If that state was not
  already awaiting an agent turn, the timeout can never append a message, whatever the
  page looks like when it runs.
\<close>

lemma send_timers:
  "timers (handleSendMessage sel now r p) = timers p
   \<or> (\<exists>sc a. timers (handleSendMessage sel now r p)
               = timers p @ [(nextTimer p, AgentResponseTimer r sc a)])"
  by (auto simp: handleSendMessage_def userMessageUpdater_def scheduleAgentResponse_def Let_def
      setters split: option.splits)

lemma send_timer_is_inert:
  assumes "\<not> awaitingAgentTurn (convState r)"
    and "(tid, AgentResponseTimer r' sc a) \<in> set (timers (handleSendMessage sel now r p))"
    and "(tid, AgentResponseTimer r' sc a) \<notin> set (timers p)"
  shows "agentResponseCallback gen now' rnd r' sc a q = q"
proof -
  from send_timers [of sel now r p] assms(2,3) have "r' = r" by auto
  with assms(1) show ?thesis by (simp add: callback_inert)
qed

subsection \<open>Two concrete runs\<close>

lemma select_host:
  "selectAgentToSpeak [] demoScenario [demoAgent ''host'', demoAgent ''guest''] ActiveHost
     = Some (demoAgent ''host'')"
  "selectAgentToSpeak [userMessage 500 ''Hi''] demoScenario
     [demoAgent ''host'', demoAgent ''guest''] ActiveHost = Some (demoAgent ''host'')"
  by (simp_all add: selectAgentToSpeak_def lastNonUserSpeaker_def lastSpokeAt_def
      userMessage_def)

lemma trim_typed:
  "trim ''Tell me about yourself'' \<noteq> []" "trim ''Are you there?'' \<noteq> []" "trim ''Hi'' \<noteq> []"
  by (simp_all add: trim_def isWhiteSpace_def)

lemma sentPage_eval:
  "sentPage =
     mountedPage\<lparr>st := mountedState\<lparr>messages := [userMessage 1000 ''Tell me about yourself''],
                                       convState := \<lparr>turnIndex = 0, awaitingAgentTurn = True\<rparr>\<rparr>,
                  scheduledTurnRef := Some 0, agentResponseTimers := [1],
                  timers := [(1, AgentResponseTimer
                                   (mountedState\<lparr>userInput := ''Tell me about yourself''\<rparr>)
                                   demoScenario (demoAgent ''host''))],
                  nextTimer := 2\<rparr>"
  by (simp add: sentPage_def handleSendMessage_def userMessageUpdater_def
      scheduleAgentResponse_def Let_def setters mountedPage_def mountedState_def trim_typed
      select_host initConversationState_def updateStateOnUserMessage_def
      canGenerateAgentResponse_def)

lemma pendingPage_value:
  "pendingPage =
     mountedPage\<lparr>st := mountedState\<lparr>messages := [userMessage 500 ''Hi'', userMessage 1500 ''Are you there?''],
                                       convState := \<lparr>turnIndex = 0, awaitingAgentTurn = True\<rparr>\<rparr>,
                  scheduledTurnRef := Some 0, agentResponseTimers := [1],
                  timers := [(1, AgentResponseTimer
                                   (mountedState\<lparr>messages := [userMessage 500 ''Hi''],
                                                 convState := \<lparr>turnIndex = 0, awaitingAgentTurn = True\<rparr>,
                                                 userInput := ''Are you there?''\<rparr>)
                                   demoScenario (demoAgent ''host''))],
                  nextTimer := 2\<rparr>"
  by (simp add: pendingPage_def awaitingPage_def handleSendMessage_def userMessageUpdater_def
      scheduleAgentResponse_def Let_def setters mountedPage_def mountedState_def trim_typed
      select_host initConversationState_def updateStateOnUserMessage_def
      canGenerateAgentResponse_def)

text \<open>
  C2. On the freshly mounted page the user sends "Tell me about yourself"
  (\<open>sentPage\<close>). The handler has scheduled one timeout (id 1), and a second
  \<open>scheduleAgentResponse\<close> for the same turn index is a no-op. When the timeout runs,
  the live conversation state awaits an agent turn and \<open>scheduledTurnRef\<close> equals its
  turn index, but the callback reads the \<open>convState\<close> of the render that created it
  (the state before the user's message, with awaitingAgentTurn false) and returns: no
  message is appended, where the claim promises exactly one.
\<close>

theorem scheduled_reply_is_dropped:
  "map fst (timers sentPage) = [1]
   \<and> scheduleAgentResponse selectAgentToSpeak (st sentPage) None sentPage = sentPage
   \<and> convState (st sentPage) = \<lparr>turnIndex = 0, awaitingAgentTurn = True\<rparr>
   \<and> scheduledTurnRef sentPage = Some 0
   \<and> messages (st (fireTimer gen 6000 rnd 1 sentPage)) = messages (st sentPage)
   \<and> timers (fireTimer gen 6000 rnd 1 sentPage) = []"
proof (intro conjI)
  show "map fst (timers sentPage) = [1]" by (simp add: sentPage_eval)
  show "scheduleAgentResponse selectAgentToSpeak (st sentPage) None sentPage = sentPage"
    by (simp add: sentPage_eval scheduleAgentResponse_def canGenerateAgentResponse_def
        mountedState_def)
  show "convState (st sentPage) = \<lparr>turnIndex = 0, awaitingAgentTurn = True\<rparr>"
    by (simp add: sentPage_eval)
  show "scheduledTurnRef sentPage = Some 0" by (simp add: sentPage_eval)
  have inert: "fireTimer gen 6000 rnd 1 sentPage = sentPage\<lparr>timers := []\<rparr>"
    by (simp add: sentPage_eval fireTimer_def agentResponseCallback_def
        canGenerateAgentResponse_def mountedState_def initConversationState_def)
  show "messages (st (fireTimer gen 6000 rnd 1 sentPage)) = messages (st sentPage)"
    unfolding inert by simp
  show "timers (fireTimer gen 6000 rnd 1 sentPage) = []"
    unfolding inert by simp
qed

text \<open>
  The callback leaves the page as it is exactly when one of its three guards, evaluated
  on the captured render and the live \<open>scheduledTurnRef\<close>, stops it; replacing the
  live conversation state does not change that.
\<close>

lemma callback_unchanged_iff:
  "agentResponseCallback gen now rnd r sc a p = p \<longleftrightarrow>
     sessionEnded r \<or> \<not> awaitingAgentTurn (convState r)
     \<or> scheduledTurnRef p \<noteq> Some (turnIndex (convState r))"
proof -
  have grow: "\<And>q m f. (setConvState f (addAgentMessage now rnd a m q))\<lparr>scheduledTurnRef := None\<rparr> \<noteq> q"
  proof
    fix q m f
    assume "(setConvState f (addAgentMessage now rnd a m q))\<lparr>scheduledTurnRef := None\<rparr> = q"
    then have "length (messages (st ((setConvState f (addAgentMessage now rnd a m q))\<lparr>scheduledTurnRef := None\<rparr>)))
             = length (messages (st q))" by simp
    then show False by (simp add: addAgentMessage_def setters)
  qed
  show ?thesis
    by (auto simp: agentResponseCallback_def canGenerateAgentResponse_def Let_def grow)
qed

lemma callback_ignores_live_state:
  "agentResponseCallback gen now rnd r sc a (setConvState f p) = setConvState f p
     \<longleftrightarrow> agentResponseCallback gen now rnd r sc a p = p"
  by (simp add: callback_unchanged_iff) (simp add: setConvState_def)





subsection \<open>Ending the session\<close>

lemma fold_clearTimeout_timers:
  "timers (fold clearTimeout ids p) = filter (\<lambda>e. fst e \<notin> set ids) (timers p)"
  by (induction ids arbitrary: p) (auto simp: clearTimeout_def intro: filter_cong)

lemma fold_clearTimeout_st: "st (fold clearTimeout ids p) = st p"
  by (induction ids arbitrary: p) (auto simp: clearTimeout_def)

lemma tracked_cleared:
  "tracked p \<Longrightarrow> filter (\<lambda>e. fst e \<notin> set (agentResponseTimers p)) (timers p) = []"
  by (auto simp: tracked_def list_all_iff filter_empty_conv)

lemma handleEndSession_quiet:
  assumes "tracked p"
  shows "timers (handleEndSession calc date r p) = []"
    and "sessionEnded (st (handleEndSession calc date r p))"
  using tracked_cleared [OF assms]
  by (simp_all add: handleEndSession_def Let_def setters fold_clearTimeout_timers
      fold_clearTimeout_st)

lemma handleEndSession_page_quiet:
  assumes "tracked p"
  shows "timers (handleEndSession_page calc date r p) = []"
    and "sessionEnded (st (handleEndSession_page calc date r p))"
  using tracked_cleared [OF assms]
  by (simp_all add: handleEndSession_page_def Let_def setters fold_clearTimeout_timers
      fold_clearTimeout_st clearTimeout_def split: option.splits)

lemma fireTimer_none: "timers q = [] \<Longrightarrow> fireTimer gen now rnd tid q = q"
  by (simp add: fireTimer_def)

lemma schedule_after_end: "sessionEnded r \<Longrightarrow> scheduleAgentResponse sel r snap q = q"
  by (simp add: scheduleAgentResponse_def split: option.splits)

lemma step_quiet:
  assumes "quiet q"
  shows "quiet (step sel gen calc ev q) \<and> agentMessages (step sel gen calc ev q) = agentMessages q"
proof (cases ev)
  case (TimerFires tid now rnd)
  then show ?thesis using assms by (simp add: step_def quiet_def fireTimer_def)
next
  case (UserSends typed now)
  then show ?thesis using assms
    by (simp add: step_def quiet_def handleSendMessage_def userMessageUpdater_def Let_def
        setters agentMessages_def userMessage_def)
next
  case (UserSendsPage typed pick now)
  then show ?thesis using assms
    by (simp add: step_def quiet_def handleSendMessage_page_def userMessageUpdater_def Let_def
        generateHardcodedResponse_def setters agentMessages_def userMessage_def)
next
  case (SessionEnds date)
  then show ?thesis using assms
    by (simp add: step_def quiet_def handleEndSession_def Let_def setters agentMessages_def
        fold_clearTimeout_timers fold_clearTimeout_st)
next
  case (SessionEndsPage date)
  then show ?thesis using assms
    by (simp add: step_def quiet_def handleEndSession_page_def Let_def setters agentMessages_def
        fold_clearTimeout_timers fold_clearTimeout_st clearTimeout_def split: option.splits)
qed

lemma run_quiet:
  "quiet q \<Longrightarrow> quiet (run sel gen calc evs q) \<and> agentMessages (run sel gen calc evs q) = agentMessages q"
proof (induction evs arbitrary: q)
  case Nil
  then show ?case by (simp add: run_def)
next
  case (Cons ev evs)
  from step_quiet [OF Cons.prems, of sel gen calc ev]
  have q1: "quiet (step sel gen calc ev q)"
    and m1: "agentMessages (step sel gen calc ev q) = agentMessages q" by simp_all
  from Cons.IH [OF q1] m1 show ?case by (simp add: run_def)
qed


lemma handleEndSession_agentMessages:
  "agentMessages (handleEndSession calc date r p) = agentMessages p"
  "agentMessages (handleEndSession_page calc date r p) = agentMessages p"
  by (simp_all add: handleEndSession_def handleEndSession_page_def Let_def setters agentMessages_def
      fold_clearTimeout_st clearTimeout_def split: option.splits)

text \<open>
  The timeouts of \<open>generateHardcodedResponse\<close> (page.tsx) are not recorded in
  \<open>agentResponseTimers\<close>, and ending the session leaves them pending.
\<close>

lemma fold_clearTimeout_hardcoded:
  "hardcodedTimers (fold clearTimeout ids p) = filter (\<lambda>e. fst e \<notin> set ids) (hardcodedTimers p)"
  by (induction ids arbitrary: p) (auto simp: clearTimeout_def intro: filter_cong)

lemma fold_clearTimeout_qaTimerRef: "qaTimerRef (fold clearTimeout ids p) = qaTimerRef p"
  by (induction ids arbitrary: p) (auto simp: clearTimeout_def)

lemma hardcoded_timers_survive_end:
  assumes "qaTimerRef p = None"
    and "\<forall>e\<in>set (hardcodedTimers p). fst e \<notin> set (agentResponseTimers p)"
  shows "hardcodedTimers (handleEndSession_page calc date r p) = hardcodedTimers p"
proof -
  have "filter (\<lambda>e. fst e \<notin> set (agentResponseTimers p)) (hardcodedTimers p) = hardcodedTimers p"
    using assms(2) by (simp add: filter_id_conv)
  then show ?thesis
    using assms(1)
    by (simp add: handleEndSession_page_def Let_def setters fold_clearTimeout_hardcoded
        fold_clearTimeout_qaTimerRef)
qed

text \<open>
  \<open>tracked\<close> holds on the mounted page and is kept by every event, so it holds
  whenever the session is ended.
\<close>

lemma tracked_mounted: "tracked mountedPage"
  by (simp add: tracked_def mountedPage_def)

lemma tracked_schedule: "tracked p \<Longrightarrow> tracked (scheduleAgentResponse sel r snap p)"
  by (auto simp: tracked_def scheduleAgentResponse_def Let_def list_all_iff
      split: option.splits if_splits)

lemma tracked_callback:
  "tracked p \<Longrightarrow> tracked (agentResponseCallback gen now rnd r sc a p)"
  by (auto simp: tracked_def agentResponseCallback_def Let_def addAgentMessage_def setters)

lemma tracked_fire: "tracked p \<Longrightarrow> tracked (fireTimer gen now rnd tid p)"
proof -
  assume t: "tracked p"
  have "tracked (p\<lparr>timers := filter (\<lambda>e. fst e \<noteq> tid) (timers p)\<rparr>)"
    using t by (auto simp: tracked_def list_all_iff)
  then show ?thesis
    by (auto simp: fireTimer_def tracked_callback t split: option.splits AgentResponseTimer.splits)
qed

lemma tracked_updater: "tracked p \<Longrightarrow> tracked (userMessageUpdater sel r p)"
proof -
  assume t: "tracked p"
  have "\<And>q f. tracked q \<Longrightarrow> tracked (setConvState f q)"
    by (simp add: tracked_def setters)
  then show ?thesis using t tracked_schedule [OF t]
    by (simp add: userMessageUpdater_def Let_def)
qed

lemma tracked_setters:
  "tracked p \<Longrightarrow> tracked (setMessages f p)"
  "tracked p \<Longrightarrow> tracked (setUserInput v p)"
  by (simp_all add: tracked_def setters)

lemma tracked_send: "tracked p \<Longrightarrow> tracked (handleSendMessage sel now r p)"
  by (simp add: handleSendMessage_def Let_def tracked_updater tracked_setters)

lemma tracked_send_page: "tracked p \<Longrightarrow> tracked (handleSendMessage_page sel pick now r p)"
proof -
  assume t: "tracked p"
  have "\<And>q. tracked q \<Longrightarrow> tracked (generateHardcodedResponse pick r q)"
    by (simp add: generateHardcodedResponse_def Let_def tracked_def setters)
  then show ?thesis using t
    by (simp add: handleSendMessage_page_def Let_def tracked_updater tracked_setters)
qed

lemma tracked_step: "tracked p \<Longrightarrow> tracked (step sel gen calc ev p)"
proof (cases ev)
  case (TimerFires tid now rnd)
  assume "tracked p"
  then show ?thesis using TimerFires by (simp add: step_def tracked_fire)
next
  case (UserSends typed now)
  assume "tracked p"
  then show ?thesis using UserSends by (simp add: step_def Let_def tracked_send tracked_setters)
next
  case (UserSendsPage typed pick now)
  assume "tracked p"
  then show ?thesis using UserSendsPage
    by (simp add: step_def Let_def tracked_send_page tracked_setters)
next
  case (SessionEnds date)
  assume "tracked p"
  then show ?thesis using SessionEnds handleEndSession_quiet(1) [of p calc date "st p"]
    by (simp add: step_def tracked_def)
next
  case (SessionEndsPage date)
  assume "tracked p"
  then show ?thesis using SessionEndsPage handleEndSession_page_quiet(1) [of p calc date "st p"]
    by (simp add: step_def tracked_def)
qed

lemma tracked_run: "tracked p \<Longrightarrow> tracked (run sel gen calc evs p)"
  by (induction evs arbitrary: p) (simp_all add: run_def tracked_step)

text \<open>
  C3. Let every pending timeout of the scheduler be recorded in
  \<open>agentResponseTimers\<close>. After \<open>handleEndSession\<close> (of either practice page)
  \<open>sessionEnded\<close> is true and no scheduler timeout is pending; and whatever events
  follow (timeouts coming due, further sends, ending again), a timeout event leaves the
  page as it is and the agent messages are still those of the moment the session ended.
  The hard-coded replies of page.tsx are created by \<open>generateHardcodedResponse\<close>, not
  by the scheduler; they are not among these events.
\<close>

theorem session_end_cancels_scheduled_turns:
  assumes "tracked p"
  shows "timers (handleEndSession calc date r p) = []
     \<and> sessionEnded (st (handleEndSession calc date r p))
     \<and> fireTimer gen now rnd tid (run sel gen' calc' evs (handleEndSession calc date r p))
         = run sel gen' calc' evs (handleEndSession calc date r p)
     \<and> agentMessages (run sel gen' calc' evs (handleEndSession calc date r p)) = agentMessages p
     \<and> timers (handleEndSession_page calc date r p) = []
     \<and> sessionEnded (st (handleEndSession_page calc date r p))
     \<and> fireTimer gen now rnd tid (run sel gen' calc' evs (handleEndSession_page calc date r p))
         = run sel gen' calc' evs (handleEndSession_page calc date r p)
     \<and> agentMessages (run sel gen' calc' evs (handleEndSession_page calc date r p)) = agentMessages p"
proof -
  let ?q = "handleEndSession calc date r p"
  let ?q' = "handleEndSession_page calc date r p"
  have q: "quiet ?q" using handleEndSession_quiet [OF assms] by (simp add: quiet_def)
  have q': "quiet ?q'" using handleEndSession_page_quiet [OF assms] by (simp add: quiet_def)
  from run_quiet [OF q, of sel gen' calc' evs]
  have r1: "timers (run sel gen' calc' evs ?q) = []"
    and r2: "agentMessages (run sel gen' calc' evs ?q) = agentMessages p"
    by (simp_all add: quiet_def handleEndSession_agentMessages)
  from run_quiet [OF q', of sel gen' calc' evs]
  have r3: "timers (run sel gen' calc' evs ?q') = []"
    and r4: "agentMessages (run sel gen' calc' evs ?q') = agentMessages p"
    by (simp_all add: quiet_def handleEndSession_agentMessages)
  show ?thesis
    using q q' r2 r4 fireTimer_none [OF r1] fireTimer_none [OF r3] by (simp add: quiet_def)
qed

theorem session_end_cancels_scheduled_turns_witness:
  "tracked pendingPage
   \<and> map fst (timers pendingPage) = [1]
   \<and> length (messages (st (fireTimer demoGenerator 6500 ''0.5'' 1 pendingPage)))
       = length (messages (st pendingPage)) + 1
   \<and> timers (handleEndSession demoScore ''2026-01-01'' (st pendingPage) pendingPage) = []
   \<and> fireTimer demoGenerator 6500 ''0.5'' 1
        (run selectAgentToSpeak demoGenerator demoScore [UserSends ''Hello?'' 6000]
           (handleEndSession demoScore ''2026-01-01'' (st pendingPage) pendingPage))
       = run selectAgentToSpeak demoGenerator demoScore [UserSends ''Hello?'' 6000]
           (handleEndSession demoScore ''2026-01-01'' (st pendingPage) pendingPage)
   \<and> agentMessages
        (run selectAgentToSpeak demoGenerator demoScore [UserSends ''Hello?'' 6000]
           (handleEndSession_page demoScore ''2026-01-01'' (st pendingPage) pendingPage))
       = agentMessages pendingPage"
proof -
  have tr: "tracked pendingPage" by (simp add: pendingPage_value tracked_def)
  have ids: "map fst (timers pendingPage) = [1]" by (simp add: pendingPage_value)
  have alive: "length (messages (st (fireTimer demoGenerator 6500 ''0.5'' 1 pendingPage)))
       = length (messages (st pendingPage)) + 1"
    by (simp add: pendingPage_value fireTimer_def agentResponseCallback_def
        addAgentMessage_def canGenerateAgentResponse_def setters mountedState_def mountedPage_def)
  show ?thesis
    using tr ids alive
      session_end_cancels_scheduled_turns [OF tr, of demoScore "''2026-01-01''" "st pendingPage"
        demoGenerator 6500 "''0.5''" 1 selectAgentToSpeak demoGenerator demoScore
        "[UserSends ''Hello?'' 6000]"]
    by simp
qed



subsection \<open>No reply is ever delivered\<close>

text \<open>
  With a selector that finds an agent whenever there is one, the page keeps the
  invariant \<open>silent\<close> under every event: a send creates a timeout only when the live
  state does not yet await an agent turn, and that state is what the timeout captures. So
  no timeout of the scheduler ever appends a message, in any run from the mounted page:
  what the first concrete run shows for one message holds for all of them. The greeting
  callback keeps the invariant as well.
\<close>

lemma silent_mounted: "silent mountedPage"
  by (simp add: silent_def inertTimers_def markerCurrent_def mountedPage_def mountedState_def
      initConversationState_def)

lemma silent_fire:
  assumes "silent p"
  shows "silent (fireTimer gen now rnd tid p) \<and> agentMessages (fireTimer gen now rnd tid p) = agentMessages p"
proof (cases "map_of (timers p) tid")
  case None
  then show ?thesis using assms by (simp add: fireTimer_def)
next
  case (Some cb)
  obtain r sc a where cb: "cb = AgentResponseTimer r sc a" by (cases cb)
  from Some have "(tid, cb) \<in> set (timers p)" by (rule map_of_SomeD)
  with assms cb have "\<not> awaitingAgentTurn (convState r)"
    by (auto simp: silent_def inertTimers_def list_all_iff)
  then have fired: "fireTimer gen now rnd tid p = p\<lparr>timers := filter (\<lambda>e. fst e \<noteq> tid) (timers p)\<rparr>"
    using Some cb by (simp add: fireTimer_def callback_inert)
  show ?thesis unfolding fired using assms
    by (auto simp: silent_def inertTimers_def markerCurrent_def agentMessages_def list_all_iff)
qed

lemma silent_updater:
  assumes tot: "totalSelector sel" and s: "inertTimers p" "sessionEnded (st p) \<or> markerCurrent p"
    and same: "convState r = convState (st p)" "sessionEnded r = sessionEnded (st p)"
      "agents r \<noteq> []" "scenario r \<noteq> None"
  shows "inertTimers (userMessageUpdater sel r p)
       \<and> (sessionEnded (st p) \<or> markerCurrent (userMessageUpdater sel r p))
       \<and> messages (st (userMessageUpdater sel r p)) = messages (st p)
       \<and> scenario (st (userMessageUpdater sel r p)) = scenario (st p)
       \<and> agents (st (userMessageUpdater sel r p)) = agents (st p)
       \<and> sessionEnded (st (userMessageUpdater sel r p)) = sessionEnded (st p)"
proof (cases "sessionEnded (st p)")
  case True
  then show ?thesis using s same
    by (simp add: userMessageUpdater_def Let_def setters inertTimers_def)
next
  case False
  with s have mc: "markerCurrent p" by simp
  obtain sc where sc: "scenario r = Some sc" using same(4) by auto
  from tot same(3) have "sel (messages r) sc (agents r) ActiveHost \<noteq> None"
    unfolding totalSelector_def by blast
  then obtain a where a: "sel (messages r) sc (agents r) ActiveHost = Some a" by auto
  show ?thesis
  proof (cases "awaitingAgentTurn (convState (st p))")
    case True
    with mc have "scheduledTurnRef p = Some (turnIndex (convState (st p)))"
      by (simp add: markerCurrent_def)
    then show ?thesis using s(1) False same sc
      by (simp add: userMessageUpdater_def Let_def setters inertTimers_def markerCurrent_def
          scheduleAgentResponse_def updateStateOnUserMessage_def canGenerateAgentResponse_def)
  next
    case notaw: False
    show ?thesis using s(1) False same sc a notaw
      by (simp add: userMessageUpdater_def Let_def setters inertTimers_def markerCurrent_def
          scheduleAgentResponse_def updateStateOnUserMessage_def canGenerateAgentResponse_def)
  qed
qed


lemma silent_send:
  assumes tot: "totalSelector sel" and s: "silent p"
  shows "silent (handleSendMessage sel now (st (setUserInput typed p)) (setUserInput typed p))
       \<and> agentMessages (handleSendMessage sel now (st (setUserInput typed p)) (setUserInput typed p))
           = agentMessages p"
proof (cases "trim typed = []")
  case True
  then show ?thesis using s
    by (auto simp: handleSendMessage_def setters silent_def inertTimers_def markerCurrent_def
        agentMessages_def split: if_splits)
next
  case False
  let ?r = "st (setUserInput typed p)"
  let ?p2 = "setUserInput [] (setMessages (\<lambda>prev. prev @ [userMessage now typed]) (setUserInput typed p))"
  have send: "handleSendMessage sel now ?r (setUserInput typed p) = userMessageUpdater sel ?r ?p2"
    using False by (simp add: handleSendMessage_def Let_def setters)
  have pre: "inertTimers ?p2" "sessionEnded (st ?p2) \<or> markerCurrent ?p2"
    "convState ?r = convState (st ?p2)" "sessionEnded ?r = sessionEnded (st ?p2)"
    "agents ?r \<noteq> []" "scenario ?r \<noteq> None"
    using s by (auto simp: silent_def inertTimers_def markerCurrent_def setters split: if_splits)
  have rest: "messages (st ?p2) = messages (st p) @ [userMessage now typed]"
    "scenario (st ?p2) = scenario (st p)" "agents (st ?p2) = agents (st p)"
    "sessionEnded (st ?p2) = sessionEnded (st p)"
    by (simp_all add: setters)
  from silent_updater [OF tot pre] rest s show ?thesis
    unfolding send by (auto simp: silent_def agentMessages_def userMessage_def)
qed


lemma silent_send_page:
  assumes tot: "totalSelector sel" and s: "silent p"
  shows "silent (handleSendMessage_page sel pick now (st (setUserInput typed p)) (setUserInput typed p))
       \<and> agentMessages (handleSendMessage_page sel pick now (st (setUserInput typed p))
            (setUserInput typed p)) = agentMessages p"
proof (cases "trim typed = []")
  case True
  then show ?thesis using s
    by (auto simp: handleSendMessage_page_def setters silent_def inertTimers_def markerCurrent_def
        agentMessages_def split: if_splits)
next
  case False
  let ?r = "st (setUserInput typed p)"
  let ?p2 = "setUserInput [] (setMessages (\<lambda>prev. prev @ [userMessage now typed]) (setUserInput typed p))"
  show ?thesis
  proof (cases "\<exists>z. scenario (st p) = Some z \<and> scenario_id z = ''presentation''")
    case True
    have send: "handleSendMessage_page sel pick now ?r (setUserInput typed p)
        = generateHardcodedResponse pick ?r ?p2"
      using False True by (auto simp: handleSendMessage_page_def Let_def setters)
    show ?thesis unfolding send using s
      by (auto simp: generateHardcodedResponse_def Let_def setters silent_def inertTimers_def
          markerCurrent_def agentMessages_def userMessage_def split: if_splits)
  next
    case other: False
    have send: "handleSendMessage_page sel pick now ?r (setUserInput typed p)
        = userMessageUpdater sel ?r ?p2"
      using False other by (auto simp: handleSendMessage_page_def Let_def setters)
    have pre: "inertTimers ?p2" "sessionEnded (st ?p2) \<or> markerCurrent ?p2"
      "convState ?r = convState (st ?p2)" "sessionEnded ?r = sessionEnded (st ?p2)"
      "agents ?r \<noteq> []" "scenario ?r \<noteq> None"
      using s by (auto simp: silent_def inertTimers_def markerCurrent_def setters split: if_splits)
    have rest: "messages (st ?p2) = messages (st p) @ [userMessage now typed]"
      "scenario (st ?p2) = scenario (st p)" "agents (st ?p2) = agents (st p)"
      "sessionEnded (st ?p2) = sessionEnded (st p)"
      by (simp_all add: setters)
    from silent_updater [OF tot pre] rest s show ?thesis
      unfolding send by (auto simp: silent_def agentMessages_def userMessage_def)
  qed
qed

lemma silent_end:
  assumes "silent p"
  shows "silent (handleEndSession calc date (st p) p)
       \<and> agentMessages (handleEndSession calc date (st p) p) = agentMessages p"
    and "silent (handleEndSession_page calc date (st p) p)
       \<and> agentMessages (handleEndSession_page calc date (st p) p) = agentMessages p"
  using assms
  by (auto simp: silent_def inertTimers_def handleEndSession_def handleEndSession_page_def Let_def
      setters fold_clearTimeout_timers fold_clearTimeout_st clearTimeout_def list_all_iff
      handleEndSession_agentMessages agentMessages_def split: option.splits)

lemma silent_step:
  assumes "totalSelector sel" "silent p"
  shows "silent (step sel gen calc ev p) \<and> agentMessages (step sel gen calc ev p) = agentMessages p"
proof (cases ev)
  case (TimerFires tid now rnd)
  then show ?thesis using silent_fire [OF assms(2)] by (simp add: step_def)
next
  case (UserSends typed now)
  then show ?thesis using silent_send [OF assms] by (simp add: step_def Let_def)
next
  case (UserSendsPage typed pick now)
  then show ?thesis using silent_send_page [OF assms] by (simp add: step_def Let_def)
next
  case (SessionEnds date)
  then show ?thesis using silent_end(1) [OF assms(2)] by (simp add: step_def)
next
  case (SessionEndsPage date)
  then show ?thesis using silent_end(2) [OF assms(2)] by (simp add: step_def)
qed

lemma scheduler_never_replies:
  assumes "totalSelector sel" "silent p"
  shows "silent (run sel gen calc evs p) \<and> agentMessages (run sel gen calc evs p) = agentMessages p"
  using assms(2)
proof (induction evs arbitrary: p)
  case Nil
  then show ?case by (simp add: run_def)
next
  case (Cons ev evs)
  from silent_step [OF assms(1) Cons.prems, of gen calc ev]
  have s1: "silent (step sel gen calc ev p)"
    and m1: "agentMessages (step sel gen calc ev p) = agentMessages p" by simp_all
  from Cons.IH [OF s1] m1 show ?case by (simp add: run_def)
qed

lemma silent_greeting:
  "silent p \<Longrightarrow> silent (greetingCallback now rnd ags p)"
  by (auto simp: silent_def inertTimers_def markerCurrent_def greetingCallback_def Let_def
      addAgentMessage_def advanceAfterAgentResponse_def setters split: list.splits)

lemma selectAgentToSpeak_total: "totalSelector selectAgentToSpeak"
proof -
  have ne: "\<And>h xs. xs \<noteq> [] \<Longrightarrow> \<exists>y. leastRecent h xs = Some y"
    using leastRecent_split by fastforce
  show ?thesis
    unfolding totalSelector_def
    by (auto simp: selectAgentToSpeak_def Let_def ne)
qed

subsection \<open>Speech results\<close>

text \<open>
  C9. On both pages a result that arrives at most the debounce threshold after
  \<open>lastTranscriptTimeRef\<close> (the time of the last processed transcript, initially the
  time of mounting) only updates the interim transcript: no message is appended and
  nothing else is triggered. Conversely, when \<open>onresult\<close> changes the message list, more
  than the threshold has elapsed, the final text is not blank, and
  \<open>lastTranscriptTimeRef\<close> becomes the time of this result. The threshold is 2000 ms on
  the practice page and 1500 ms on the interview page.
\<close>

theorem speech_debounce:
  "(int now - int (lastTranscriptTimeRef p) \<le> 2000 \<longrightarrow>
      onresult sel now r results p = setInterimTranscript (interimText results) p)
   \<and> (messages (st (onresult sel now r results p)) \<noteq> messages (st p) \<longrightarrow>
      2000 < int now - int (lastTranscriptTimeRef p)
      \<and> trim (finalText results) \<noteq> []
      \<and> lastTranscriptTimeRef (onresult sel now r results p) = now)
   \<and> (int now - int (iv_lastTranscriptTimeRef q) \<le> 1500 \<longrightarrow>
      iv_onresult now ri results q = iv_setInterimTranscript (interimText results) q)
   \<and> (iv_messages (ist (iv_onresult now ri results q)) \<noteq> iv_messages (ist q) \<longrightarrow>
      1500 < int now - int (iv_lastTranscriptTimeRef q)
      \<and> trim (finalText results) \<noteq> []
      \<and> iv_lastTranscriptTimeRef (iv_onresult now ri results q) = now)"
proof (intro conjI impI)
  assume "int now - int (lastTranscriptTimeRef p) \<le> 2000"
  then show "onresult sel now r results p = setInterimTranscript (interimText results) p"
    by (simp add: onresult_def Let_def setInterimTranscript_def)
next
  assume ch: "messages (st (onresult sel now r results p)) \<noteq> messages (st p)"
  have unchanged: "messages (st (setInterimTranscript (interimText results) p)) = messages (st p)"
    by (simp add: setInterimTranscript_def)
  from ch unchanged show "2000 < int now - int (lastTranscriptTimeRef p)"
    by (auto simp: onresult_def Let_def setInterimTranscript_def split: if_splits)
  from ch unchanged show "trim (finalText results) \<noteq> []"
    by (auto simp: onresult_def Let_def split: if_splits)
  from ch unchanged show "lastTranscriptTimeRef (onresult sel now r results p) = now"
    by (auto simp: onresult_def Let_def split: if_splits)
next
  assume "int now - int (iv_lastTranscriptTimeRef q) \<le> 1500"
  then show "iv_onresult now ri results q = iv_setInterimTranscript (interimText results) q"
    by (simp add: iv_onresult_def Let_def iv_setInterimTranscript_def)
next
  assume ch: "iv_messages (ist (iv_onresult now ri results q)) \<noteq> iv_messages (ist q)"
  have unchanged:
    "iv_messages (ist (iv_setInterimTranscript (interimText results) q)) = iv_messages (ist q)"
    by (simp add: iv_setInterimTranscript_def)
  from ch unchanged show "1500 < int now - int (iv_lastTranscriptTimeRef q)"
    by (auto simp: iv_onresult_def Let_def iv_setInterimTranscript_def split: if_splits)
  from ch unchanged show "trim (finalText results) \<noteq> []"
    by (auto simp: iv_onresult_def Let_def split: if_splits)
  from ch unchanged show "iv_lastTranscriptTimeRef (iv_onresult now ri results q) = now"
    by (auto simp: iv_onresult_def Let_def split: if_splits)
qed


lemma finalText_demo: "trim (finalText [(''hello there'', True)]) = ''hello there''"
  by (simp add: finalText_def trim_def isWhiteSpace_def)

lemma interimText_demo: "interimText [(''hello there'', True)] = []"
    by (simp add: interimText_def)


lemma trim_demo: "trim ''hello there'' = ''hello there''"
  by (simp add: trim_def isWhiteSpace_def)

lemma interview_result_processed: "iv_messages (ist (iv_onresult 1600 (ist mountedInterview) [(''hello there'', True)] mountedInterview))
       = [iv_userMessage 1600 ''hello there'']"
    by (simp add: iv_onresult_def Let_def finalText_demo interimText_demo iv_setInterimTranscript_def
        mountedInterview_def handleUserSpeech_start_def trim_demo
        iv_setMessages_def setIsProcessing_def)

lemma practice_result_processed: "messages (st (onresult selectAgentToSpeak 2500 mountedState [(''hello there'', True)] mountedPage))
       = [userMessage 2500 ''hello there'']"
    by (simp add: onresult_def Let_def finalText_demo interimText_demo setters mountedPage_def
        mountedState_def userMessageUpdater_def scheduleAgentResponse_def
        canGenerateAgentResponse_def updateStateOnUserMessage_def selectAgentToSpeak_def
        demoAgent_def demoScenario_def split: option.splits)


theorem speech_debounce_witness:
  "int 1200 - int (lastTranscriptTimeRef mountedPage) \<le> 2000
   \<and> onresult selectAgentToSpeak 1200 mountedState [(''hello there'', True)] mountedPage
       = setInterimTranscript [] mountedPage
   \<and> messages (st (onresult selectAgentToSpeak 2500 mountedState [(''hello there'', True)] mountedPage))
       = [userMessage 2500 ''hello there'']
   \<and> lastTranscriptTimeRef
        (onresult selectAgentToSpeak 2500 mountedState [(''hello there'', True)] mountedPage) = 2500
   \<and> int 1200 - int (iv_lastTranscriptTimeRef mountedInterview) \<le> 1500
   \<and> iv_onresult 1200 (ist mountedInterview) [(''hello there'', True)] mountedInterview
       = iv_setInterimTranscript [] mountedInterview
   \<and> iv_messages (ist (iv_onresult 1600 (ist mountedInterview) [(''hello there'', True)] mountedInterview))
       = [iv_userMessage 1600 ''hello there'']
   \<and> iv_lastTranscriptTimeRef
        (iv_onresult 1600 (ist mountedInterview) [(''hello there'', True)] mountedInterview) = 1600"
proof -
  have early: "int 1200 - int (lastTranscriptTimeRef mountedPage) \<le> 2000"
    by (simp add: mountedPage_def)
  have early': "int 1200 - int (iv_lastTranscriptTimeRef mountedInterview) \<le> 1500"
    by (simp add: mountedInterview_def)
  have changed: "messages (st (onresult selectAgentToSpeak 2500 mountedState [(''hello there'', True)] mountedPage))
       \<noteq> messages (st mountedPage)"
    unfolding practice_result_processed by (simp add: mountedPage_def mountedState_def)
  have changed': "iv_messages (ist (iv_onresult 1600 (ist mountedInterview) [(''hello there'', True)] mountedInterview))
       \<noteq> iv_messages (ist mountedInterview)"
    unfolding interview_result_processed by (simp add: mountedInterview_def)
  note at1200 = speech_debounce [of 1200 mountedPage selectAgentToSpeak mountedState
      "[(''hello there'', True)]" mountedInterview "ist mountedInterview"]
  have a: "onresult selectAgentToSpeak 1200 mountedState [(''hello there'', True)] mountedPage
       = setInterimTranscript [] mountedPage"
    using at1200 early interimText_demo by metis
  have b: "iv_onresult 1200 (ist mountedInterview) [(''hello there'', True)] mountedInterview
       = iv_setInterimTranscript [] mountedInterview"
    using at1200 early' interimText_demo by metis
  have c: "lastTranscriptTimeRef
        (onresult selectAgentToSpeak 2500 mountedState [(''hello there'', True)] mountedPage) = 2500"
    using speech_debounce [of 2500 mountedPage selectAgentToSpeak mountedState
      "[(''hello there'', True)]" mountedInterview "ist mountedInterview"] changed
    by blast
  have d: "iv_lastTranscriptTimeRef
        (iv_onresult 1600 (ist mountedInterview) [(''hello there'', True)] mountedInterview) = 1600"
    using speech_debounce [of 1600 mountedPage selectAgentToSpeak mountedState
      "[(''hello there'', True)]" mountedInterview "ist mountedInterview"] changed'
    by blast
  show ?thesis
    by (intro conjI) (rule early a practice_result_processed c early' b interview_result_processed d)+
qed


subsection \<open>Failure of the conversational-AI endpoint\<close>

text \<open>
  What the two handlers do from the point where the awaited call has failed, and the
  whole handlers when their entry guard lets the call be made. The guard reads the
  processing flag of the handler's render; the flag of the live page may differ.
\<close>

text \<open>A greeting response that is not ok leaves the page without any message.\<close>

lemma greeting_not_ok_is_skipped: "initGreetingSettle now rnd ags (NotOk e) p = p"
  by (simp add: initGreetingSettle_def split: list.splits)

lemma geminiSettle_threw:
  "geminiSettle now rnd r (Threw m) p
     = p\<lparr>st := (st p)
          \<lparr>messages := messages (st p) @
             [\<lparr>msg_id = ''error-'' @ decimal now, agentId = ''system'', agentName = ''System'',
               content = ''Sorry, I encountered an error: '' @ m @ ''. Please try again.'',
               timestamp = now, isUser = False\<rparr>],
           isGeminiProcessing := False\<rparr>\<rparr>"
  by (simp add: geminiSettle_def errorMessage_def setMessages_def setIsGeminiProcessing_def)

lemma geminiSettle_not_ok:
  "geminiSettle now rnd r (NotOk e) p
     = p\<lparr>st := (st p)
          \<lparr>messages := messages (st p) @
             [\<lparr>msg_id = ''error-'' @ decimal now, agentId = ''system'', agentName = ''System'',
               content = ''Sorry, I encountered an error: ''
                  @ (case e of None \<Rightarrow> ''Failed to get response from interviewer''
                     | Some x \<Rightarrow> if x = [] then ''Failed to get response from interviewer'' else x)
                  @ ''. Please try again.'',
               timestamp = now, isUser = False\<rparr>],
           isGeminiProcessing := False\<rparr>\<rparr>"
  by (cases e) (simp_all add: geminiSettle_def errorMessage_def setMessages_def
      setIsGeminiProcessing_def)

lemma handleUserSpeech_settle_threw:
  "handleUserSpeech_settle now ri (Threw m) q
     = q\<lparr>ist := (ist q)
          \<lparr>iv_messages := iv_messages (ist q) @
             [\<lparr>dm_id = ''error-'' @ decimal now, dm_role = RoleAssistant,
               dm_content = ''Sorry, I encountered an error: '' @ m @ ''. Please try again.'',
               dm_timestamp = now\<rparr>],
           isProcessing := False\<rparr>\<rparr>"
  by (simp add: handleUserSpeech_settle_def iv_errorMessage_def iv_setMessages_def
      setIsProcessing_def)

lemma handleUserSpeech_settle_not_ok:
  "handleUserSpeech_settle now ri (NotOk e) q
     = q\<lparr>ist := (ist q)
          \<lparr>iv_messages := iv_messages (ist q) @
             [\<lparr>dm_id = ''error-'' @ decimal now, dm_role = RoleAssistant,
               dm_content = ''Sorry, I encountered an error: ''
                  @ (case e of None \<Rightarrow> ''Failed to get response from interviewer''
                     | Some x \<Rightarrow> if x = [] then ''Failed to get response from interviewer'' else x)
                  @ ''. Please try again.'',
               dm_timestamp = now\<rparr>],
           isProcessing := False\<rparr>\<rparr>"
  by (cases e) (simp_all add: handleUserSpeech_settle_def iv_errorMessage_def iv_setMessages_def
      setIsProcessing_def)

lemma gemini_roundtrip:
  assumes "\<not> isGeminiProcessing r" "scenario r \<noteq> None"
  shows "handleGeminiInterviewerResponse now rnd r userText outcome p
         = geminiSettle now rnd r outcome (p\<lparr>st := (st p)\<lparr>isGeminiProcessing := True\<rparr>\<rparr>)"
  using assms
  by (auto simp: handleGeminiInterviewerResponse_def geminiStart_def setIsGeminiProcessing_def)

lemma speech_roundtrip:
  assumes "\<not> isProcessing ri" "trim spoken \<noteq> []"
  shows "handleUserSpeech earlier now ri spoken outcome q
         = handleUserSpeech_settle now ri outcome
             (q\<lparr>ist := (ist q)
                  \<lparr>iv_messages := iv_messages (ist q) @
                     [\<lparr>dm_id = ''user-'' @ decimal earlier, dm_role = RoleUser,
                       dm_content = spoken, dm_timestamp = earlier\<rparr>],
                   isProcessing := True\<rparr>\<rparr>)"
  using assms
  by (simp add: handleUserSpeech_def handleUserSpeech_start_def iv_userMessage_def
      iv_setMessages_def setIsProcessing_def)

text \<open>
  C6. The call made for a user utterance fails (an error with message \<open>m\<close> was thrown, or
  the response was not ok and its body had the error field \<open>e\<close>). Then
  \<open>handleGeminiInterviewerResponse\<close> and \<open>handleUserSpeech\<close> return the page they
  found with exactly one message appended, whose content is "Sorry, I encountered an
  error: " followed by the error text and ". Please try again.", and with the
  processing flag cleared; every other part of the page is as before, and no error
  escapes (the result is a page). The error text is \<open>m\<close> for a thrown error; for a
  response that is not ok it is the error field of the body, or "Failed to get response
  from interviewer" when the field is missing or empty. These are all the outcomes
  other than a success body. On the interview page the user's own message, appended
  before the call, precedes the error message. When the greeting request of the mount
  effect throws, the default greeting is appended instead.
\<close>

theorem endpoint_failure_appends_error_message:
  "geminiSettle now rnd r (Threw m) p
     = p\<lparr>st := (st p)
          \<lparr>messages := messages (st p) @
             [\<lparr>msg_id = ''error-'' @ decimal now, agentId = ''system'', agentName = ''System'',
               content = ''Sorry, I encountered an error: '' @ m @ ''. Please try again.'',
               timestamp = now, isUser = False\<rparr>],
           isGeminiProcessing := False\<rparr>\<rparr>
   \<and> geminiSettle now rnd r (NotOk e) p
     = p\<lparr>st := (st p)
          \<lparr>messages := messages (st p) @
             [\<lparr>msg_id = ''error-'' @ decimal now, agentId = ''system'', agentName = ''System'',
               content = ''Sorry, I encountered an error: ''
                  @ (case e of None \<Rightarrow> ''Failed to get response from interviewer''
                     | Some x \<Rightarrow> if x = [] then ''Failed to get response from interviewer'' else x)
                  @ ''. Please try again.'',
               timestamp = now, isUser = False\<rparr>],
           isGeminiProcessing := False\<rparr>\<rparr>
   \<and> handleUserSpeech_settle now ri (Threw m) q
     = q\<lparr>ist := (ist q)
          \<lparr>iv_messages := iv_messages (ist q) @
             [\<lparr>dm_id = ''error-'' @ decimal now, dm_role = RoleAssistant,
               dm_content = ''Sorry, I encountered an error: '' @ m @ ''. Please try again.'',
               dm_timestamp = now\<rparr>],
           isProcessing := False\<rparr>\<rparr>
   \<and> handleUserSpeech_settle now ri (NotOk e) q
     = q\<lparr>ist := (ist q)
          \<lparr>iv_messages := iv_messages (ist q) @
             [\<lparr>dm_id = ''error-'' @ decimal now, dm_role = RoleAssistant,
               dm_content = ''Sorry, I encountered an error: ''
                  @ (case e of None \<Rightarrow> ''Failed to get response from interviewer''
                     | Some x \<Rightarrow> if x = [] then ''Failed to get response from interviewer'' else x)
                  @ ''. Please try again.'',
               dm_timestamp = now\<rparr>],
           isProcessing := False\<rparr>\<rparr>
   \<and> (\<not> isGeminiProcessing r \<and> scenario r \<noteq> None \<longrightarrow>
        handleGeminiInterviewerResponse now rnd r userText (Threw m) p
          = p\<lparr>st := (st p)
               \<lparr>messages := messages (st p) @
                  [\<lparr>msg_id = ''error-'' @ decimal now, agentId = ''system'',
                    agentName = ''System'',
                    content = ''Sorry, I encountered an error: '' @ m @ ''. Please try again.'',
                    timestamp = now, isUser = False\<rparr>],
                isGeminiProcessing := False\<rparr>\<rparr>
        \<and> handleGeminiInterviewerResponse now rnd r userText (NotOk e) p
          = p\<lparr>st := (st p)
               \<lparr>messages := messages (st p) @
                  [\<lparr>msg_id = ''error-'' @ decimal now, agentId = ''system'',
                    agentName = ''System'',
                    content = ''Sorry, I encountered an error: ''
                       @ (case e of None \<Rightarrow> ''Failed to get response from interviewer''
                          | Some x \<Rightarrow> if x = [] then ''Failed to get response from interviewer''
                                      else x)
                       @ ''. Please try again.'',
                    timestamp = now, isUser = False\<rparr>],
                isGeminiProcessing := False\<rparr>\<rparr>)
   \<and> (\<not> isProcessing ri \<and> trim spoken \<noteq> [] \<longrightarrow>
        handleUserSpeech earlier now ri spoken (Threw m) q
          = q\<lparr>ist := (ist q)
               \<lparr>iv_messages := iv_messages (ist q) @
                  [\<lparr>dm_id = ''user-'' @ decimal earlier, dm_role = RoleUser,
                    dm_content = spoken, dm_timestamp = earlier\<rparr>,
                   \<lparr>dm_id = ''error-'' @ decimal now, dm_role = RoleAssistant,
                    dm_content = ''Sorry, I encountered an error: '' @ m @ ''. Please try again.'',
                    dm_timestamp = now\<rparr>],
                isProcessing := False\<rparr>\<rparr>
        \<and> handleUserSpeech earlier now ri spoken (NotOk e) q
          = q\<lparr>ist := (ist q)
               \<lparr>iv_messages := iv_messages (ist q) @
                  [\<lparr>dm_id = ''user-'' @ decimal earlier, dm_role = RoleUser,
                    dm_content = spoken, dm_timestamp = earlier\<rparr>,
                   \<lparr>dm_id = ''error-'' @ decimal now, dm_role = RoleAssistant,
                    dm_content = ''Sorry, I encountered an error: ''
                       @ (case e of None \<Rightarrow> ''Failed to get response from interviewer''
                          | Some x \<Rightarrow> if x = [] then ''Failed to get response from interviewer''
                                      else x)
                       @ ''. Please try again.'',
                    dm_timestamp = now\<rparr>],
                isProcessing := False\<rparr>\<rparr>)
   \<and> ((\<forall>t h. outcome \<noteq> OkBody t h) \<longrightarrow> (\<exists>m'. outcome = Threw m') \<or> (\<exists>e'. outcome = NotOk e'))
   \<and> initGreetingSettle now rnd (a # rest) (Threw m) p
     = p\<lparr>st := (st p)
          \<lparr>messages := messages (st p) @
             [\<lparr>msg_id = ''msg-'' @ decimal now @ ''-'' @ rnd, agentId = agent_id a,
               agentName = agent_name a,
               content = ''Hello! Welcome to the session. Feel free to introduce yourself!'',
               timestamp = now, isUser = False\<rparr>]\<rparr>\<rparr>"
proof (intro conjI impI)
  show "(\<exists>m'. outcome = Threw m') \<or> (\<exists>e'. outcome = NotOk e')" if "\<forall>t h. outcome \<noteq> OkBody t h"
    using that by (cases outcome) auto
  show "initGreetingSettle now rnd (a # rest) (Threw m) p
     = p\<lparr>st := (st p)
          \<lparr>messages := messages (st p) @
             [\<lparr>msg_id = ''msg-'' @ decimal now @ ''-'' @ rnd, agentId = agent_id a,
               agentName = agent_name a,
               content = ''Hello! Welcome to the session. Feel free to introduce yourself!'',
               timestamp = now, isUser = False\<rparr>]\<rparr>\<rparr>"
    by (simp add: initGreetingSettle_def addAgentMessage_def setMessages_def)
qed (simp_all add: gemini_roundtrip speech_roundtrip geminiSettle_threw geminiSettle_not_ok
      handleUserSpeech_settle_threw handleUserSpeech_settle_not_ok)

lemma trim_spaced: "trim ''hello there '' = ''hello there''"
  by (simp add: trim_def isWhiteSpace_def)

lemma askedPage_value:
  "askedPage =
     geminiPage\<lparr>st := (st geminiPage)
                   \<lparr>messages := [userMessage 2500 ''hello there''],
                     fullTranscript := '' hello there '',
                     isGeminiProcessing := True\<rparr>,
                 lastTranscriptTimeRef := 2500\<rparr>"
  by (simp add: askedPage_def onresult_def Let_def finalText_def interimText_def trim_spaced
      geminiStart_def setters geminiPage_def mountedPage_def mountedState_def)

text \<open>
  The claim as stated does not hold: the processing flag is session state, and the
  failure path clears it. On the practice page a speech result has been processed and
  the request is in flight (\<open>askedPage\<close>, flag set); when the failure arrives the flag is
  cleared, and so it is when a second speech result calls the handler meanwhile (the
  render of the recognition callback still has the flag unset). The same holds on the
  interview page. And the greeting request answers a thrown error with the default
  greeting, not with an error message.
\<close>

theorem failure_handling_clears_the_processing_flag:
  "isGeminiProcessing (st askedPage) = True
   \<and> isGeminiProcessing
        (st (geminiSettle 7000 ''0.5'' (st geminiPage) (Threw ''Failed to fetch'') askedPage))
       = False
   \<and> isGeminiProcessing
        (st (handleGeminiInterviewerResponse 7000 ''0.5'' (st geminiPage) ''one more thing''
               (Threw ''Failed to fetch'') askedPage))
       = False
   \<and> isProcessing (ist askedInterview) = True
   \<and> isProcessing
        (ist (handleUserSpeech_settle 7000 (ist mountedInterview) (Threw ''Failed to fetch'')
                askedInterview))
       = False
   \<and> map content
        (messages (st (initGreetingSettle 2000 ''0.3'' (agents (st geminiPage))
                         (Threw ''Failed to fetch'') geminiPage)))
       = [''Hello! Welcome to the session. Feel free to introduce yourself!'']"
proof (intro conjI)
  show "isGeminiProcessing (st askedPage) = True" by (simp add: askedPage_value)
  show "isGeminiProcessing
        (st (geminiSettle 7000 ''0.5'' (st geminiPage) (Threw ''Failed to fetch'') askedPage))
       = False"
    by (simp add: geminiSettle_threw)
  have idle: "\<not> isGeminiProcessing (st geminiPage)" "scenario (st geminiPage) \<noteq> None"
    by (simp_all add: geminiPage_def mountedState_def)
  show "isGeminiProcessing
        (st (handleGeminiInterviewerResponse 7000 ''0.5'' (st geminiPage) ''one more thing''
               (Threw ''Failed to fetch'') askedPage))
       = False"
    by (simp add: gemini_roundtrip [OF idle] geminiSettle_threw)
  show "isProcessing (ist askedInterview) = True"
    by (simp add: askedInterview_def handleUserSpeech_start_def mountedInterview_def trim_demo
        setIsProcessing_def iv_setMessages_def)
  show "isProcessing
        (ist (handleUserSpeech_settle 7000 (ist mountedInterview) (Threw ''Failed to fetch'')
                askedInterview))
       = False"
    by (simp add: handleUserSpeech_settle_threw)
  show "map content
        (messages (st (initGreetingSettle 2000 ''0.3'' (agents (st geminiPage))
                         (Threw ''Failed to fetch'') geminiPage)))
       = [''Hello! Welcome to the session. Feel free to introduce yourself!'']"
    by (simp add: initGreetingSettle_def addAgentMessage_def setMessages_def geminiPage_def
        mountedPage_def mountedState_def)
qed

text \<open>
  The theorem at a quota error that arrives while an earlier request is in flight, and at
  a network error on the mounted interview page.
\<close>

theorem endpoint_failure_appends_error_message_witness:
  "handleGeminiInterviewerResponse 7000 ''0.5'' (st geminiPage) ''one more thing''
       (NotOk (Some ''quota exceeded'')) askedPage
     = askedPage\<lparr>st := (st askedPage)
          \<lparr>messages := [userMessage 2500 ''hello there'',
              \<lparr>msg_id = ''error-'' @ decimal 7000, agentId = ''system'', agentName = ''System'',
                content = ''Sorry, I encountered an error: quota exceeded. Please try again.'',
                timestamp = 7000, isUser = False\<rparr>],
           isGeminiProcessing := False\<rparr>\<rparr>
   \<and> iv_messages (ist (handleUserSpeech 6000 7000 (ist mountedInterview) ''hello there''
                          (Threw ''Failed to fetch'') mountedInterview))
     = [\<lparr>dm_id = ''user-'' @ decimal 6000, dm_role = RoleUser, dm_content = ''hello there'',
         dm_timestamp = 6000\<rparr>,
        \<lparr>dm_id = ''error-'' @ decimal 7000, dm_role = RoleAssistant,
         dm_content = ''Sorry, I encountered an error: Failed to fetch. Please try again.'',
         dm_timestamp = 7000\<rparr>]
   \<and> isProcessing (ist (handleUserSpeech 6000 7000 (ist mountedInterview) ''hello there''
                           (Threw ''Failed to fetch'') mountedInterview)) = False
   \<and> ((\<exists>m. NotOk (Some ''quota exceeded'') = Threw m)
        \<or> (\<exists>e. NotOk (Some ''quota exceeded'') = NotOk e))"
proof -
  have failed: "\<forall>t h. NotOk (Some ''quota exceeded'') \<noteq> OkBody t h" by simp
  have idle: "\<not> isGeminiProcessing (st geminiPage) \<and> scenario (st geminiPage) \<noteq> None"
    by (simp add: geminiPage_def mountedState_def)
  have idle': "\<not> isProcessing (ist mountedInterview) \<and> trim ''hello there'' \<noteq> []"
    by (simp add: mountedInterview_def trim_demo)
  have msgs: "messages (st askedPage) = [userMessage 2500 ''hello there'']"
    by (simp add: askedPage_value)
  have none: "iv_messages (ist mountedInterview) = []" by (simp add: mountedInterview_def)
  from endpoint_failure_appends_error_message [of 7000 "''0.5''" "st geminiPage"
      "''Failed to fetch''" askedPage "Some ''quota exceeded''" "ist mountedInterview"
      mountedInterview "''one more thing''" "''hello there''" 6000
      "NotOk (Some ''quota exceeded'')"]
  have g: "\<not> isGeminiProcessing (st geminiPage) \<and> scenario (st geminiPage) \<noteq> None \<longrightarrow>
        handleGeminiInterviewerResponse 7000 ''0.5'' (st geminiPage) ''one more thing''
            (NotOk (Some ''quota exceeded'')) askedPage
          = askedPage\<lparr>st := (st askedPage)
               \<lparr>messages := messages (st askedPage) @
                  [\<lparr>msg_id = ''error-'' @ decimal 7000, agentId = ''system'',
                    agentName = ''System'',
                    content = ''Sorry, I encountered an error: quota exceeded. Please try again.'',
                    timestamp = 7000, isUser = False\<rparr>],
                isGeminiProcessing := False\<rparr>\<rparr>"
    and u: "\<not> isProcessing (ist mountedInterview) \<and> trim ''hello there'' \<noteq> [] \<longrightarrow>
        handleUserSpeech 6000 7000 (ist mountedInterview) ''hello there''
            (Threw ''Failed to fetch'') mountedInterview
          = mountedInterview\<lparr>ist := (ist mountedInterview)
               \<lparr>iv_messages := iv_messages (ist mountedInterview) @
                  [\<lparr>dm_id = ''user-'' @ decimal 6000, dm_role = RoleUser,
                    dm_content = ''hello there'', dm_timestamp = 6000\<rparr>,
                   \<lparr>dm_id = ''error-'' @ decimal 7000, dm_role = RoleAssistant,
                    dm_content = ''Sorry, I encountered an error: Failed to fetch. Please try again.'',
                    dm_timestamp = 7000\<rparr>],
                isProcessing := False\<rparr>\<rparr>"
    and x: "(\<forall>t h. NotOk (Some ''quota exceeded'') \<noteq> OkBody t h) \<longrightarrow>
        (\<exists>m. NotOk (Some ''quota exceeded'') = Threw m)
        \<or> (\<exists>e. NotOk (Some ''quota exceeded'') = NotOk e)"
    by simp_all
  show ?thesis
    unfolding g [rule_format, OF idle] u [rule_format, OF idle']
    using x [rule_format, OF failed [rule_format]] by (simp add: msgs none)
qed

end
